theory Spec2Isabelle
  imports Main "HOL-Library.Sublist"
begin

section \<open>Python values and exceptions\<close>

text \<open>
  The track specification is the result of \<^verbatim>\<open>json.loads\<close>: a tree of Python values.
  \<open>JNull\<close> is \<^verbatim>\<open>None\<close>, \<open>JObj\<close> is a \<^verbatim>\<open>dict\<close> given by its items in insertion order
  (a lookup takes the first binding of a key; the keys of a Python dict are distinct).
  JSON numbers with a fraction are floats in Python and are not modelled.
\<close>

datatype json =
    JNull
  | JBool bool
  | JInt int
  | JStr string
  | JList "json list"
  | JObj "(string \<times> json) list"

text \<open>
  The exceptions the loader raises or lets pass: \<open>TrackSyntaxError\<close>,
  \<open>SystemSetupError\<close> and \<open>DataError\<close> carry their message, \<open>KeyError\<close> the missing key.
  \<open>URLError\<close> and \<open>SupplyError\<close> stand for the class and its subclasses, which the loader
  catches alike; \<open>OtherError\<close> stands for any exception of a collaborator that the loader
  never catches.
\<close>

datatype error =
    TrackSyntaxError string
  | SystemSetupError string
  | DataError string
  | SupplyError
  | URLError
  | KeyError string
  | TypeError
  | OSError
  | OtherError string

text \<open>Sequencing of computations that may raise: the first exception wins.\<close>

definition and_then :: "error + 'a \<Rightarrow> ('a \<Rightarrow> error + 'b) \<Rightarrow> error + 'b" where
  "and_then m f = (case m of Inl e \<Rightarrow> Inl e | Inr x \<Rightarrow> f x)"

fun each :: "('a \<Rightarrow> error + 'b) \<Rightarrow> 'a list \<Rightarrow> error + 'b list" where
  "each f [] = Inr []"
| "each f (x # xs) =
     (case f x of
        Inl e \<Rightarrow> Inl e
      | Inr y \<Rightarrow> (case each f xs of Inl e \<Rightarrow> Inl e | Inr ys \<Rightarrow> Inr (y # ys)))"

text \<open>The single quote character of the messages.\<close>

definition q :: string where
  "q = [CHR 0x27]"

text \<open>Truthiness of a value, as \<^verbatim>\<open>if x:\<close> tests it.\<close>

fun py_truthy :: "json \<Rightarrow> bool" where
  "py_truthy JNull = False"
| "py_truthy (JBool b) = b"
| "py_truthy (JInt n) = (n \<noteq> 0)"
| "py_truthy (JStr s) = (s \<noteq> [])"
| "py_truthy (JList xs) = (xs \<noteq> [])"
| "py_truthy (JObj kvs) = (kvs \<noteq> [])"

text \<open>Decimal digits of a number, as \<^verbatim>\<open>%d\<close> and \<^verbatim>\<open>str\<close> print an int.\<close>

fun dec_nat :: "nat \<Rightarrow> string" where
  "dec_nat n =
     (if n < 10 then [''0123456789'' ! n]
      else dec_nat (n div 10) @ [''0123456789'' ! (n mod 10)])"

definition dec_int :: "int \<Rightarrow> string" where
  "dec_int i = (if i < 0 then ''-'' @ dec_nat (nat (- i)) else dec_nat (nat i))"

text \<open>
  \<^verbatim>\<open>"%s" % x\<close>. The text of a list or of a dict is Python's \<^verbatim>\<open>repr\<close> of it, which is
  taken as the parameter \<open>repr\<close>.
\<close>

fun py_str :: "(json \<Rightarrow> string) \<Rightarrow> json \<Rightarrow> string" where
  "py_str repr JNull = ''None''"
| "py_str repr (JBool b) = (if b then ''True'' else ''False'')"
| "py_str repr (JInt n) = dec_int n"
| "py_str repr (JStr s) = s"
| "py_str repr (JList xs) = repr (JList xs)"
| "py_str repr (JObj kvs) = repr (JObj kvs)"

text \<open>\<^verbatim>\<open>sep.join(xs)\<close> for a list of strings.\<close>

fun join :: "string \<Rightarrow> string list \<Rightarrow> string" where
  "join sep [] = []"
| "join sep [x] = x"
| "join sep (x # y # ys) = x @ sep @ join sep (y # ys)"

text \<open>
  \<^verbatim>\<open>structure[k]\<close> for a string key: a dict without the key raises \<^verbatim>\<open>KeyError\<close>, every
  other value (a list, a string, a number, \<^verbatim>\<open>None\<close>) raises \<^verbatim>\<open>TypeError\<close>.
\<close>

fun py_getitem :: "json \<Rightarrow> string \<Rightarrow> error + json" where
  "py_getitem (JObj kvs) k = (case map_of kvs k of None \<Rightarrow> Inl (KeyError k) | Some v \<Rightarrow> Inr v)"
| "py_getitem v k = Inl TypeError"

text \<open>
  \<^verbatim>\<open>for x in v\<close>: the elements of a list, the keys of a dict, the characters of a string;
  any other value is not iterable.
\<close>

fun py_iter :: "json \<Rightarrow> error + json list" where
  "py_iter (JList xs) = Inr xs"
| "py_iter (JObj kvs) = Inr (map (\<lambda>kv. JStr (fst kv)) kvs)"
| "py_iter (JStr s) = Inr (map (\<lambda>c. JStr [c]) s)"
| "py_iter v = Inl TypeError"

section \<open>The specification reader: field lookup\<close>

text \<open>
  The methods of \<^verbatim>\<open>TrackSpecificationReader\<close> keep their names without the leading
  underscore, which a name cannot start with here: \<^verbatim>\<open>_error\<close> is \<open>reader_error\<close>, \<^verbatim>\<open>_r\<close> is
  \<open>reader_r\<close>, \<^verbatim>\<open>_create_type\<close> is \<open>create_type\<close>, and so on. Their first arguments are what
  they read of \<^verbatim>\<open>self\<close> and of Python: \<open>name\<close> is \<^verbatim>\<open>self.name\<close>, the track's name.
\<close>

definition reader_error :: "string \<Rightarrow> string \<Rightarrow> error + 'a" where
  "reader_error name msg = Inl (TrackSyntaxError (''Track '' @ q @ name @ q @ '' is invalid. '' @ msg))"

text \<open>The loop of \<^verbatim>\<open>_r\<close>: \<^verbatim>\<open>for k in path: structure = structure[k]\<close>.\<close>

fun descend :: "json \<Rightarrow> string list \<Rightarrow> error + json" where
  "descend structure [] = Inr structure"
| "descend structure (k # ks) =
     (case py_getitem structure k of Inl e \<Rightarrow> Inl e | Inr v \<Rightarrow> descend v ks)"

text \<open>
  \<^verbatim>\<open>TrackSpecificationReader._r(root, path, error_ctx, mandatory, default_value)\<close>. The path is
  a list of keys (a single key \<open>k\<close> is the path \<open>[k]\<close>); \<open>error_ctx\<close> is \<open>JNull\<close> when the
  caller passes none. Only \<^verbatim>\<open>KeyError\<close> is caught; a \<^verbatim>\<open>TypeError\<close> passes through.
\<close>

definition reader_r ::
  "(json \<Rightarrow> string) \<Rightarrow> string \<Rightarrow> json \<Rightarrow> string list \<Rightarrow> json \<Rightarrow> bool \<Rightarrow> json \<Rightarrow> error + json" where
  "reader_r repr name root path error_ctx mandatory default_value =
     (case descend root path of
        Inr structure \<Rightarrow> Inr structure
      | Inl (KeyError k) \<Rightarrow>
          if mandatory then
            if py_truthy error_ctx then
              reader_error name (''Mandatory element '' @ q @ join ''.'' path @ q @
                '' is missing in '' @ q @ py_str repr error_ctx @ q @ ''.'')
            else
              reader_error name (''Mandatory element '' @ q @ join ''.'' path @ q @ '' is missing.'')
          else Inr default_value
      | Inl e \<Rightarrow> Inl e)"

section \<open>The domain model\<close>

text \<open>
  Modelled from the spec: the classes of \<^verbatim>\<open>esrally.track.track\<close> (Operation, Task,
  ParallelBlock, Challenge, DocumentGroup, Index, Track), whose file is not in the repository's
  sources. Each is a record of the arguments the loader passes to its constructor, in
  the loader's order and under the loader's names (prefixed where two classes share one);
  an argument that the loader leaves as \<^verbatim>\<open>None\<close> is \<open>JNull\<close> or \<open>None\<close>.
\<close>

record Operation =
  op_name :: json
  operation_type :: json
  params :: json
  param_source :: json

record Task =
  operation :: Operation
  warmup_iterations :: json
  warmup_time_period :: json
  iterations :: json
  clients :: json
  target_throughput :: json

record Parallel =
  parallel_tasks :: "Task list"
  parallel_clients :: json

datatype schedule_entry = A_Task Task | A_Parallel Parallel

record Challenge =
  challenge_name :: json
  challenge_description :: json
  index_settings :: json
  schedule :: "schedule_entry list"

record Type =
  type_name :: json
  mapping_file :: string
  document_file :: "string option"
  document_archive :: "string option"
  number_of_documents :: json
  compressed_size_in_bytes :: json
  uncompressed_size_in_bytes :: json

record Index =
  index_name :: json
  index_types :: "Type list"

record Track =
  track_name :: string
  short_description :: json
  description :: json
  source_root_url :: json
  challenges :: "Challenge list"
  indices :: "Index list"

text \<open>
  The parameters of the reader, for what it calls outside the loader:
  \<^item> \<open>py_repr\<close>: Python's \<^verbatim>\<open>repr\<close> of a list or dict (see \<open>py_str\<close>);
  \<^item> \<open>builtin_kinds\<close>: the names of the members of the enumeration \<^verbatim>\<open>track.OperationType\<close>;
  \<^item> \<open>from_hyphenated_other\<close>: what \<^verbatim>\<open>track.OperationType.from_hyphenated_string(v).name\<close>
    gives or raises for a value \<open>v\<close> that is no string;
  \<^item> \<open>Operation_invalid\<close>: the text \<^verbatim>\<open>str(e)\<close> of the \<^verbatim>\<open>InvalidSyntax\<close> that the constructor
    \<^verbatim>\<open>track.Operation\<close> raises for these arguments, if it raises one;
  \<^item> \<open>io_splitext\<close>: \<^verbatim>\<open>esrally.utils.io.splitext\<close>;
  \<^item> \<open>has_valid_document_data\<close>: the method of that name of \<^verbatim>\<open>track.Type\<close>, which returns a
    truth value or raises.
\<close>

record externals =
  py_repr :: "json \<Rightarrow> string"
  builtin_kinds :: "string list"
  from_hyphenated_other :: "json \<Rightarrow> error + string"
  Operation_invalid :: "Operation \<Rightarrow> string option"
  io_splitext :: "json \<Rightarrow> error + string \<times> string"
  has_valid_document_data :: "Type \<Rightarrow> error + bool"

text \<open>
  Modelled from the spec: \<^verbatim>\<open>OperationType.from_hyphenated_string\<close> of \<^verbatim>\<open>esrally.track.track\<close>,
  whose file is not in the repository's sources. The spec says that an operation's type
  string "is matched case/hyphen-insensitively against a closed enumeration of built-in
  kinds": \<open>fold_kind\<close> removes the hyphens and lowers the letters A to Z,
  \<open>match_kind kinds s\<close> is the first name in the enumeration \<open>kinds\<close> that agrees with
  \<open>s\<close> after folding, and \<open>from_hyphenated_string\<close> gives that name for a string, or raises
  \<^verbatim>\<open>KeyError\<close> when there is none. The spec does not say what happens to a value that is
  no string.
\<close>

definition lower :: "char \<Rightarrow> char" where
  "lower c =
     (case map_of (zip ''ABCDEFGHIJKLMNOPQRSTUVWXYZ'' ''abcdefghijklmnopqrstuvwxyz'') c of
        None \<Rightarrow> c
      | Some l \<Rightarrow> l)"

definition fold_kind :: "string \<Rightarrow> string" where
  "fold_kind s = map lower (filter (\<lambda>c. c \<noteq> CHR ''-'') s)"

definition match_kind :: "string list \<Rightarrow> string \<Rightarrow> string option" where
  "match_kind kinds s = find (\<lambda>kind. fold_kind kind = fold_kind s) kinds"

definition from_hyphenated_string :: "externals \<Rightarrow> json \<Rightarrow> error + string" where
  "from_hyphenated_string ext v =
     (case v of
        JStr s \<Rightarrow>
          (case match_kind (builtin_kinds ext) s of
             Some kind \<Rightarrow> Inr kind
           | None \<Rightarrow> Inl (KeyError s))
      | _ \<Rightarrow> from_hyphenated_other ext v)"

section \<open>The specification reader: operations and schedules\<close>

text \<open>
  The key under which a dict stores a value: \<^verbatim>\<open>True\<close> and \<^verbatim>\<open>1\<close> (and \<^verbatim>\<open>False\<close> and \<^verbatim>\<open>0\<close>) are
  the same key, a list or a dict is unhashable. The operations table \<^verbatim>\<open>ops\<close> is a map
  from such keys.
\<close>

fun py_hash_key :: "json \<Rightarrow> error + json" where
  "py_hash_key (JBool b) = Inr (JInt (if b then 1 else 0))"
| "py_hash_key (JList xs) = Inl TypeError"
| "py_hash_key (JObj kvs) = Inl TypeError"
| "py_hash_key v = Inr v"

type_synonym ops_table = "json \<rightharpoonup> Operation"

text \<open>
  \<^verbatim>\<open>parse_task(task_spec, ops, challenge_name, default_warmup_iterations, default_iterations)\<close>.
  The two defaults are always passed here; a caller that leaves them out of the Python call
  passes the signature's 0 and 1.
\<close>

definition parse_task ::
  "(json \<Rightarrow> string) \<Rightarrow> string \<Rightarrow> json \<Rightarrow> ops_table \<Rightarrow> json \<Rightarrow> json \<Rightarrow> json \<Rightarrow> error + Task" where
  "parse_task repr name task_spec ops challenge default_warmup_iterations default_iterations =
     and_then (py_getitem task_spec ''operation'') (\<lambda>opn.
     and_then (py_hash_key opn) (\<lambda>key.
       case ops key of
         None \<Rightarrow>
           reader_error name (q @ ''schedule'' @ q @ '' for challenge '' @ q @ py_str repr challenge @ q @
             '' contains a non-existing operation '' @ q @ py_str repr opn @ q @
             ''. Please add an operation '' @ q @ py_str repr opn @ q @
             '' to the 'operations' block.'')
       | Some found \<Rightarrow>
           and_then (reader_r repr name task_spec [''warmup-iterations''] opn False
                       default_warmup_iterations) (\<lambda>wi.
           and_then (reader_r repr name task_spec [''warmup-time-period''] opn False JNull) (\<lambda>wtp.
           and_then (reader_r repr name task_spec [''iterations''] opn False default_iterations) (\<lambda>it.
           and_then (reader_r repr name task_spec [''clients''] opn False (JInt 1)) (\<lambda>cl.
           and_then (reader_r repr name task_spec [''target-throughput''] opn False JNull) (\<lambda>tt.
             Inr \<lparr>operation = found, warmup_iterations = wi, warmup_time_period = wtp,
                  iterations = it, clients = cl, target_throughput = tt\<rparr>)))))))"

text \<open>\<^verbatim>\<open>parse_parallel(ops_spec, ops, challenge_name)\<close>.\<close>

definition parse_parallel ::
  "(json \<Rightarrow> string) \<Rightarrow> string \<Rightarrow> json \<Rightarrow> ops_table \<Rightarrow> json \<Rightarrow> error + Parallel" where
  "parse_parallel repr name ops_spec ops challenge =
     and_then (reader_r repr name ops_spec [''warmup-iterations''] (JStr ''parallel'') False JNull)
       (\<lambda>default_warmup_iterations.
     and_then (reader_r repr name ops_spec [''iterations''] (JStr ''parallel'') False JNull)
       (\<lambda>default_iterations.
     and_then (reader_r repr name ops_spec [''clients''] (JStr ''parallel'') False JNull) (\<lambda>cl.
     and_then (reader_r repr name ops_spec [''tasks''] (JStr ''parallel'') True JNull) (\<lambda>ts.
     and_then (py_iter ts) (\<lambda>task_specs.
     and_then (each (\<lambda>task. parse_task repr name task ops challenge
                          default_warmup_iterations default_iterations) task_specs) (\<lambda>tasks.
       Inr \<lparr>parallel_tasks = tasks, parallel_clients = cl\<rparr>))))))"

text \<open>
  The body of the schedule loop of \<^verbatim>\<open>_create_challenges\<close>:
  \<^verbatim>\<open>if "parallel" in op: parse_parallel(op["parallel"], ...) else: parse_task(op, ...)\<close>.
  For an entry that is no dict, either the test or the indexing that follows it raises
  \<^verbatim>\<open>TypeError\<close>.
\<close>

definition parse_schedule_entry ::
  "(json \<Rightarrow> string) \<Rightarrow> string \<Rightarrow> ops_table \<Rightarrow> json \<Rightarrow> json \<Rightarrow> error + schedule_entry" where
  "parse_schedule_entry repr name ops challenge op =
     (case op of
        JObj kvs \<Rightarrow>
          (case map_of kvs ''parallel'' of
             Some ops_spec \<Rightarrow> and_then (parse_parallel repr name ops_spec ops challenge) (\<lambda>p. Inr (A_Parallel p))
           | None \<Rightarrow> and_then (parse_task repr name op ops challenge (JInt 0) (JInt 1)) (\<lambda>t. Inr (A_Task t)))
      | _ \<Rightarrow> Inl TypeError)"

text \<open>The body of the loop of \<^verbatim>\<open>parse_operations\<close>, which adds one operation to \<^verbatim>\<open>ops\<close>.\<close>

definition parse_operation :: "externals \<Rightarrow> string \<Rightarrow> ops_table \<Rightarrow> json \<Rightarrow> error + ops_table" where
  "parse_operation ext name ops op_spec =
     and_then (reader_r (py_repr ext) name op_spec [''name''] (JStr ''operations'') True JNull) (\<lambda>opn.
     and_then (reader_r (py_repr ext) name op_spec [''operation-type''] (JStr ''operations'') True JNull)
       (\<lambda>op_type_name.
     and_then (case from_hyphenated_string ext op_type_name of
                 Inr builtin \<Rightarrow> Inr (JStr builtin)
               | Inl (KeyError k) \<Rightarrow> Inr op_type_name
               | Inl e \<Rightarrow> Inl e) (\<lambda>op_type.
     and_then (reader_r (py_repr ext) name op_spec [''param-source''] (JStr ''operations'') False JNull)
       (\<lambda>ps.
       let made = \<lparr>op_name = opn, operation_type = op_type, params = op_spec, param_source = ps\<rparr> in
       case Operation_invalid ext made of
         Some e \<Rightarrow> Inl (TrackSyntaxError (''Invalid operation ['' @ py_str (py_repr ext) opn @ '']: '' @ e))
       | None \<Rightarrow> and_then (py_hash_key opn) (\<lambda>key. Inr (ops(key \<mapsto> made)))))))"

fun parse_operations_loop :: "externals \<Rightarrow> string \<Rightarrow> ops_table \<Rightarrow> json list \<Rightarrow> error + ops_table" where
  "parse_operations_loop ext name ops [] = Inr ops"
| "parse_operations_loop ext name ops (op_spec # rest) =
     (case parse_operation ext name ops op_spec of
        Inl e \<Rightarrow> Inl e
      | Inr ops' \<Rightarrow> parse_operations_loop ext name ops' rest)"

text \<open>\<^verbatim>\<open>parse_operations(ops_specs)\<close>.\<close>

definition parse_operations :: "externals \<Rightarrow> string \<Rightarrow> json \<Rightarrow> error + ops_table" where
  "parse_operations ext name ops_specs =
     and_then (py_iter ops_specs) (parse_operations_loop ext name Map.empty)"

section \<open>The specification reader: indices, challenges, the track\<close>

text \<open>
  \<^verbatim>\<open>_create_type(type_spec, mapping_dir, data_dir)\<close>. Python evaluates the constructor's
  arguments from left to right, so a missing \<^verbatim>\<open>name\<close> is reported before a missing
  \<^verbatim>\<open>mapping\<close>, and both after \<^verbatim>\<open>io.splitext\<close> has run.
\<close>

definition create_type :: "externals \<Rightarrow> string \<Rightarrow> json \<Rightarrow> string \<Rightarrow> string \<Rightarrow> error + Type" where
  "create_type ext name type_spec mapping_dir data_dir =
     and_then (reader_r (py_repr ext) name type_spec [''documents''] JNull False JNull) (\<lambda>compressed_docs.
     and_then (if py_truthy compressed_docs then
                 and_then (io_splitext ext compressed_docs) (\<lambda>parts.
                   Inr (Some (data_dir @ ''/'' @ py_str (py_repr ext) compressed_docs),
                        Some (data_dir @ ''/'' @ fst parts)))
               else Inr (None, None)) (\<lambda>paths.
     and_then (reader_r (py_repr ext) name type_spec [''name''] JNull True JNull) (\<lambda>n.
     and_then (reader_r (py_repr ext) name type_spec [''mapping''] JNull True JNull) (\<lambda>m.
     and_then (reader_r (py_repr ext) name type_spec [''document-count''] JNull False (JInt 0)) (\<lambda>cnt.
     and_then (reader_r (py_repr ext) name type_spec [''compressed-bytes''] JNull False JNull) (\<lambda>cb.
     and_then (reader_r (py_repr ext) name type_spec [''uncompressed-bytes''] JNull False JNull) (\<lambda>ub.
       Inr \<lparr>type_name = n,
            mapping_file = mapping_dir @ ''/'' @ py_str (py_repr ext) m,
            document_file = snd paths,
            document_archive = fst paths,
            number_of_documents = cnt,
            compressed_size_in_bytes = cb,
            uncompressed_size_in_bytes = ub\<rparr>)))))))"

text \<open>
  The loop of \<^verbatim>\<open>_create_index\<close> over the parsed types: it asks each type whether it has
  valid document data, up to the first that has; an exception of that method leaves the
  loop.
\<close>

fun any_valid_document_data :: "(Type \<Rightarrow> error + bool) \<Rightarrow> Type list \<Rightarrow> error + bool" where
  "any_valid_document_data valid [] = Inr False"
| "any_valid_document_data valid (t # ts) =
     (case valid t of
        Inl e \<Rightarrow> Inl e
      | Inr found \<Rightarrow> if found then Inr True else any_valid_document_data valid ts)"

text \<open>
  \<^verbatim>\<open>_create_index(index_spec, mapping_dir, data_dir)\<close>. When no type has valid document
  data a warning goes to the console; the index is returned in both cases, and the
  warning itself is not modelled.
\<close>

definition create_index :: "externals \<Rightarrow> string \<Rightarrow> json \<Rightarrow> string \<Rightarrow> string \<Rightarrow> error + Index" where
  "create_index ext name index_spec mapping_dir data_dir =
     and_then (reader_r (py_repr ext) name index_spec [''name''] JNull True JNull) (\<lambda>n.
     and_then (reader_r (py_repr ext) name index_spec [''types''] JNull True JNull) (\<lambda>type_specs.
     and_then (py_iter type_specs) (\<lambda>specs.
     and_then (each (\<lambda>type_spec. create_type ext name type_spec mapping_dir data_dir) specs) (\<lambda>types.
     and_then (any_valid_document_data (has_valid_document_data ext) types) (\<lambda>valid_document_data.
       Inr \<lparr>index_name = n, index_types = types\<rparr>)))))"

text \<open>The body of the loop over the challenges in \<^verbatim>\<open>_create_challenges\<close>.\<close>

definition create_challenge :: "externals \<Rightarrow> string \<Rightarrow> ops_table \<Rightarrow> json \<Rightarrow> error + Challenge" where
  "create_challenge ext name ops challenge =
     and_then (reader_r (py_repr ext) name challenge [''name''] (JStr ''challenges'') True JNull) (\<lambda>cn.
     and_then (reader_r (py_repr ext) name challenge [''description''] cn True JNull) (\<lambda>cd.
     and_then (reader_r (py_repr ext) name challenge [''index-settings''] cn False JNull) (\<lambda>settings.
     and_then (reader_r (py_repr ext) name challenge [''schedule''] cn True JNull) (\<lambda>sched.
     and_then (py_iter sched) (\<lambda>entries.
     and_then (each (parse_schedule_entry (py_repr ext) name ops cn) entries) (\<lambda>parsed.
       Inr \<lparr>challenge_name = cn, challenge_description = cd, index_settings = settings,
            schedule = parsed\<rparr>))))))"

text \<open>\<^verbatim>\<open>_create_challenges(track_spec)\<close>.\<close>

definition create_challenges :: "externals \<Rightarrow> string \<Rightarrow> json \<Rightarrow> error + Challenge list" where
  "create_challenges ext name track_spec =
     and_then (reader_r (py_repr ext) name track_spec [''operations''] JNull True JNull) (\<lambda>ops_specs.
     and_then (parse_operations ext name ops_specs) (\<lambda>ops.
     and_then (reader_r (py_repr ext) name track_spec [''challenges''] JNull True JNull) (\<lambda>cs.
     and_then (py_iter cs) (\<lambda>specs.
       each (create_challenge ext name ops) specs))))"

text \<open>
  \<^verbatim>\<open>TrackSpecificationReader.__call__(track_name, track_specification, mapping_dir, data_dir)\<close>.
\<close>

definition read_track :: "externals \<Rightarrow> string \<Rightarrow> json \<Rightarrow> string \<Rightarrow> string \<Rightarrow> error + Track" where
  "read_track ext name track_specification mapping_dir data_dir =
     and_then (reader_r (py_repr ext) name track_specification [''meta'', ''short-description'']
                 JNull True JNull) (\<lambda>sd.
     and_then (reader_r (py_repr ext) name track_specification [''meta'', ''description'']
                 JNull True JNull) (\<lambda>d.
     and_then (reader_r (py_repr ext) name track_specification [''meta'', ''data-url'']
                 JNull True JNull) (\<lambda>url.
     and_then (reader_r (py_repr ext) name track_specification [''indices''] JNull True JNull) (\<lambda>idxs.
     and_then (py_iter idxs) (\<lambda>specs.
     and_then (each (\<lambda>idx. create_index ext name idx mapping_dir data_dir) specs) (\<lambda>is.
     and_then (create_challenges ext name track_specification) (\<lambda>cs.
       Inr \<lparr>track_name = name, short_description = sd, description = d, source_root_url = url,
            challenges = cs, indices = is\<rparr>)))))))"

section \<open>Staging the data of a track\<close>

text \<open>
  The local file system as far as \<^verbatim>\<open>prepare_track\<close> reads it: the regular files and
  their sizes in bytes (\<^verbatim>\<open>os.path.isfile\<close>, \<^verbatim>\<open>os.path.getsize\<close>). The calls that reach the
  network or write files are recorded, in order, in \<open>io_log\<close>.
\<close>

type_synonym files = "string \<rightharpoonup> nat"

datatype io_event =
    Ensure_Dir string
  | Download string string
  | Decompress string string
  | Offset_Table string

record world =
  files :: files
  io_log :: "io_event list"

text \<open>
  The parameters of \<^verbatim>\<open>prepare_track\<close>: the configured \<^verbatim>\<open>offline.mode\<close>, and the functions of
  \<^verbatim>\<open>os.path\<close> and \<^verbatim>\<open>esrally.utils\<close> it calls. A function that writes files maps the files
  before the call to its outcome (return or the exception raised) and the files after it.
  \<open>convert_bytes_to_mb\<close> and \<open>convert_bytes_to_gb\<close> give the exception raised by computing and
  formatting the size for the console message, if any; the message itself is not modelled.
\<close>

record stager = externals +
  offline :: bool
  os_path_basename :: "string \<Rightarrow> string"
  os_path_dirname :: "string \<Rightarrow> string"
  io_dirname :: "string \<Rightarrow> string"
  convert_bytes_to_mb :: "json \<Rightarrow> error option"
  convert_bytes_to_gb :: "json \<Rightarrow> error option"
  io_ensure_dir :: "string \<Rightarrow> files \<Rightarrow> (error + unit) \<times> files"
  net_download :: "string \<Rightarrow> string \<Rightarrow> json \<Rightarrow> files \<Rightarrow> (error + unit) \<times> files"
  io_decompress :: "string \<Rightarrow> string \<Rightarrow> files \<Rightarrow> (error + unit) \<times> files"
  io_prepare_file_offset_table :: "string \<Rightarrow> files \<Rightarrow> (error + unit) \<times> files"

text \<open>A call of such a function: it is recorded, and the files are what it leaves.\<close>

definition call :: "io_event \<Rightarrow> (files \<Rightarrow> (error + unit) \<times> files) \<Rightarrow> world \<Rightarrow> (error + unit) \<times> world" where
  "call ev f w = (case f (files w) of (r, fs) \<Rightarrow> (r, \<lparr>files = fs, io_log = io_log w @ [ev]\<rparr>))"

text \<open>
  \<^verbatim>\<open>n == size_in_bytes\<close> for a file size \<open>n\<close>: a size declared as \<^verbatim>\<open>true\<close> or \<^verbatim>\<open>false\<close> compares
  as 1 or 0, and no size equals \<^verbatim>\<open>None\<close>, a string, a list or a dict.
\<close>

fun size_eq :: "nat \<Rightarrow> json \<Rightarrow> bool" where
  "size_eq n (JInt i) = (int n = i)"
| "size_eq n (JBool b) = (n = (if b then 1 else 0))"
| "size_eq n v = False"

text \<open>\<^verbatim>\<open>"%d" % v\<close>: a number is required.\<close>

fun py_format_d :: "json \<Rightarrow> error + string" where
  "py_format_d (JInt i) = Inr (dec_int i)"
| "py_format_d (JBool b) = Inr (if b then ''1'' else ''0'')"
| "py_format_d v = Inl TypeError"

text \<open>
  The first test of \<^verbatim>\<open>download\<close>:
  \<^verbatim>\<open>file_exists and os.path.getsize(local_path) == size_in_bytes\<close>.
\<close>

definition already_downloaded :: "files \<Rightarrow> string \<Rightarrow> json \<Rightarrow> bool" where
  "already_downloaded fs local_path size_in_bytes =
     (case fs local_path of None \<Rightarrow> False | Some n \<Rightarrow> size_eq n size_in_bytes)"

text \<open>
  The download step of \<^verbatim>\<open>download\<close>: \<^verbatim>\<open>if not offline: try: ... except urllib.error.URLError\<close>.
  A \<^verbatim>\<open>URLError\<close> is logged and swallowed; any other exception leaves \<^verbatim>\<open>download\<close>.
\<close>

definition try_download :: "stager \<Rightarrow> string \<Rightarrow> string \<Rightarrow> json \<Rightarrow> world \<Rightarrow> (error + unit) \<times> world" where
  "try_download env url local_path size_in_bytes w =
     (if offline env then (Inr (), w)
      else
        case (case call (Ensure_Dir (os_path_dirname env local_path))
                     (io_ensure_dir env (os_path_dirname env local_path)) w of
                (Inl e, w1) \<Rightarrow> (Inl e, w1)
              | (Inr u, w1) \<Rightarrow>
                  (case convert_bytes_to_mb env size_in_bytes of
                     Some e \<Rightarrow> (Inl e, w1)
                   | None \<Rightarrow> call (Download url local_path) (net_download env url local_path size_in_bytes) w1)) of
          (Inl URLError, w2) \<Rightarrow> (Inr (), w2)
        | (r, w2) \<Rightarrow> (r, w2))"

text \<open>
  The checks of \<^verbatim>\<open>download\<close> after the download step: the file must exist and have the
  expected size.
\<close>

definition verify_download :: "stager \<Rightarrow> string \<Rightarrow> string \<Rightarrow> json \<Rightarrow> world \<Rightarrow> (error + bool) \<times> world" where
  "verify_download env url local_path size_in_bytes w =
     (case files w local_path of
        None \<Rightarrow>
          if offline env then
            (Inl (SystemSetupError (''Cannot find '' @ local_path @
               ''. Please disable offline mode and retry again.'')), w)
          else
            (Inl (SystemSetupError (''Cannot download from '' @ url @ '' to '' @ local_path @
               ''. Please verify that data are available at '' @ url @
               '' and check your internet connection.'')), w)
      | Some actual_size \<Rightarrow>
          if \<not> size_eq actual_size size_in_bytes then
            (case py_format_d size_in_bytes of
               Inl e \<Rightarrow> (Inl e, w)
             | Inr expected \<Rightarrow>
                 (Inl (DataError (''['' @ local_path @ ''] is corrupt. Downloaded ['' @
                    dec_nat actual_size @ ''] bytes but ['' @ expected @ ''] bytes are expected.'')), w))
          else (Inr True, w))"

text \<open>\<^verbatim>\<open>download(cfg, url, local_path, size_in_bytes)\<close> of \<^verbatim>\<open>prepare_track\<close>.\<close>

definition download :: "stager \<Rightarrow> string \<Rightarrow> string \<Rightarrow> json \<Rightarrow> world \<Rightarrow> (error + bool) \<times> world" where
  "download env url local_path size_in_bytes w =
     (if already_downloaded (files w) local_path size_in_bytes then (Inr False, w)
      else
        case try_download env url local_path size_in_bytes w of
          (Inl e, w1) \<Rightarrow> (Inl e, w1)
        | (Inr u, w1) \<Rightarrow> verify_download env url local_path size_in_bytes w1)"

text \<open>
  \<^verbatim>\<open>decompress(data_set_path, expected_size_in_bytes)\<close> of \<^verbatim>\<open>prepare_track\<close>. The size in its
  console message is \<^verbatim>\<open>type.uncompressed_size_in_bytes\<close> of the enclosing loop, which is the
  value passed as \<^verbatim>\<open>expected_size_in_bytes\<close>. \<^verbatim>\<open>os.path.getsize\<close> of a file that does not
  exist raises \<^verbatim>\<open>OSError\<close>.
\<close>

definition decompress :: "stager \<Rightarrow> string \<Rightarrow> json \<Rightarrow> world \<Rightarrow> (error + string \<times> bool) \<times> world" where
  "decompress env data_set_path expected_size_in_bytes w =
     (case io_splitext env (JStr data_set_path) of
        Inl e \<Rightarrow> (Inl e, w)
      | Inr (basename, extension) \<Rightarrow>
          if (case files w basename of None \<Rightarrow> True | Some n \<Rightarrow> \<not> size_eq n expected_size_in_bytes) then
            (case convert_bytes_to_gb env expected_size_in_bytes of
               Some e \<Rightarrow> (Inl e, w)
             | None \<Rightarrow>
                 (case call (Decompress data_set_path (io_dirname env data_set_path))
                         (io_decompress env data_set_path (io_dirname env data_set_path)) w of
                    (Inl e, w1) \<Rightarrow> (Inl e, w1)
                  | (Inr u, w1) \<Rightarrow>
                      (case files w1 basename of
                         None \<Rightarrow> (Inl OSError, w1)
                       | Some extracted_bytes \<Rightarrow>
                           if \<not> size_eq extracted_bytes expected_size_in_bytes then
                             (case py_format_d expected_size_in_bytes of
                                Inl e \<Rightarrow> (Inl e, w1)
                              | Inr expected \<Rightarrow>
                                  (Inl (DataError (''['' @ basename @ ''] is corrupt. Extracted ['' @
                                     dec_nat extracted_bytes @ ''] bytes but ['' @ expected @
                                     ''] bytes are expected.'')), w1))
                           else (Inr (basename, True), w1))))
          else (Inr (basename, False), w))"

text \<open>
  The body of the loops of \<^verbatim>\<open>prepare_track\<close> for one type: nothing is done for a type
  whose \<^verbatim>\<open>document_archive\<close> is \<^verbatim>\<open>None\<close> or empty.
\<close>

definition prepare_type :: "stager \<Rightarrow> json \<Rightarrow> Type \<Rightarrow> world \<Rightarrow> (error + unit) \<times> world" where
  "prepare_type env root_url t w =
     (case document_archive t of
        None \<Rightarrow> (Inr (), w)
      | Some archive \<Rightarrow>
          if archive = [] then (Inr (), w)
          else
            case download env (py_str (py_repr env) root_url @ ''/'' @ os_path_basename env archive)
                   archive (compressed_size_in_bytes t) w of
              (Inl e, w1) \<Rightarrow> (Inl e, w1)
            | (Inr downloaded, w1) \<Rightarrow>
                (case decompress env archive (uncompressed_size_in_bytes t) w1 of
                   (Inl e, w2) \<Rightarrow> (Inl e, w2)
                 | (Inr (decompressed_file_path, was_decompressed), w2) \<Rightarrow>
                     call (Offset_Table decompressed_file_path)
                       (io_prepare_file_offset_table env decompressed_file_path) w2))"

text \<open>A \<^verbatim>\<open>for\<close> loop whose body may raise: the first exception ends it.\<close>

fun for_each :: "('a \<Rightarrow> world \<Rightarrow> (error + unit) \<times> world) \<Rightarrow> 'a list \<Rightarrow> world \<Rightarrow> (error + unit) \<times> world" where
  "for_each body [] w = (Inr (), w)"
| "for_each body (x # xs) w =
     (case body x w of (Inl e, w1) \<Rightarrow> (Inl e, w1) | (Inr u, w1) \<Rightarrow> for_each body xs w1)"

text \<open>\<^verbatim>\<open>prepare_track(track, cfg)\<close>.\<close>

definition prepare_track :: "stager \<Rightarrow> Track \<Rightarrow> world \<Rightarrow> (error + unit) \<times> world" where
  "prepare_track env track w =
     for_each (\<lambda>index. for_each (prepare_type env (source_root_url track)) (index_types index))
       (indices track) w"

section \<open>The track repository\<close>

text \<open>
  What \<^verbatim>\<open>TrackRepository._update\<close> does is recorded in order: the lines it logs, and its
  calls of \<^verbatim>\<open>git.checkout\<close> and \<^verbatim>\<open>git.rebase\<close> with the directory and the branch.
\<close>

datatype repo_event =
    Log_Info string
  | Log_Warn string
  | Log_Exception string
  | Console_Warn string
  | Git_Checkout string string
  | Git_Rebase string string

text \<open>The state of the working copy is of any type \<open>'g\<close>; only \<^verbatim>\<open>esrally.utils.git\<close> reads it.\<close>

record 'g repo_world =
  working_copy :: 'g
  repo_log :: "repo_event list"

text \<open>
  The parameters of \<^verbatim>\<open>_update\<close>: the functions of \<^verbatim>\<open>esrally.utils.git\<close> and
  \<^verbatim>\<open>esrally.utils.versions\<close> it calls. \<open>versions_best_match\<close> gives the branch for a version,
  or \<^verbatim>\<open>None\<close>.
\<close>

record 'g repo_functions =
  git_branches :: "string \<Rightarrow> bool \<Rightarrow> 'g \<Rightarrow> error + string list"
  versions_best_match :: "string list \<Rightarrow> string option \<Rightarrow> error + string option"
  git_checkout :: "string \<Rightarrow> string \<Rightarrow> 'g \<Rightarrow> (error + unit) \<times> 'g"
  git_rebase :: "string \<Rightarrow> string \<Rightarrow> 'g \<Rightarrow> (error + unit) \<times> 'g"

text \<open>The fields of a \<^verbatim>\<open>TrackRepository\<close> that \<^verbatim>\<open>_update\<close> reads.\<close>

record TrackRepository =
  remote :: bool
  repo_offline :: bool
  tracks_dir :: string

text \<open>\<^verbatim>\<open>"%s" % distribution_version\<close>; the version is \<^verbatim>\<open>None\<close> when none is configured.\<close>

fun version_str :: "string option \<Rightarrow> string" where
  "version_str None = ''None''"
| "version_str (Some v) = v"

text \<open>
  \<^verbatim>\<open>if branch:\<close> holds for a branch name that is not empty; \<open>found_branch\<close> gives that
  name.
\<close>

fun found_branch :: "string option \<Rightarrow> string option" where
  "found_branch None = None"
| "found_branch (Some b) = (if b = [] then None else Some b)"

definition logged :: "repo_event \<Rightarrow> 'g repo_world \<Rightarrow> 'g repo_world" where
  "logged ev w = w\<lparr>repo_log := repo_log w @ [ev]\<rparr>"

definition checkout :: "'g repo_functions \<Rightarrow> string \<Rightarrow> string \<Rightarrow> 'g repo_world \<Rightarrow> (error + unit) \<times> 'g repo_world" where
  "checkout git dir branch w =
     (case git_checkout git dir branch (working_copy w) of
        (r, g) \<Rightarrow> (r, \<lparr>working_copy = g, repo_log = repo_log w @ [Git_Checkout dir branch]\<rparr>))"

definition rebase :: "'g repo_functions \<Rightarrow> string \<Rightarrow> string \<Rightarrow> 'g repo_world \<Rightarrow> (error + unit) \<times> 'g repo_world" where
  "rebase git dir branch w =
     (case git_rebase git dir branch (working_copy w) of
        (r, g) \<Rightarrow> (r, \<lparr>working_copy = g, repo_log = repo_log w @ [Git_Rebase dir branch]\<rparr>))"

definition checking_out :: "string \<Rightarrow> string \<Rightarrow> string option \<Rightarrow> string" where
  "checking_out branch dir version =
     ''Checking out ['' @ branch @ ''] in ['' @ dir @ ''] for distribution version ['' @
       version_str version @ ''].''"

text \<open>
  The second part of \<^verbatim>\<open>_update\<close>: the best match among the local branches is checked
  out, and no match is a \<^verbatim>\<open>SystemSetupError\<close>.
\<close>

definition update_local ::
  "'g repo_functions \<Rightarrow> TrackRepository \<Rightarrow> string option \<Rightarrow> 'g repo_world \<Rightarrow> (error + unit) \<times> 'g repo_world" where
  "update_local git repo distribution_version w =
     (case git_branches git (tracks_dir repo) False (working_copy w) of
        Inl e \<Rightarrow> (Inl e, w)
      | Inr branches \<Rightarrow>
          (case versions_best_match git branches distribution_version of
             Inl e \<Rightarrow> (Inl e, w)
           | Inr branch \<Rightarrow>
               (case found_branch branch of
                  Some b \<Rightarrow>
                    checkout git (tracks_dir repo) b
                      (logged (Log_Info (checking_out b (tracks_dir repo) distribution_version)) w)
                | None \<Rightarrow>
                    (Inl (SystemSetupError (''Cannot find track data for distribution version '' @
                       version_str distribution_version)), w))))"

text \<open>
  The body of the \<^verbatim>\<open>try\<close> of \<^verbatim>\<open>_update\<close>. With a remote and online, a matching remote
  branch is checked out and rebased (a \<^verbatim>\<open>SupplyError\<close> of the rebase is logged and
  swallowed) and the method returns; a miss is logged and the local branches are tried.
\<close>

definition update_body ::
  "'g repo_functions \<Rightarrow> TrackRepository \<Rightarrow> string option \<Rightarrow> 'g repo_world \<Rightarrow> (error + unit) \<times> 'g repo_world" where
  "update_body git repo distribution_version w =
     (if remote repo \<and> \<not> repo_offline repo then
        case git_branches git (tracks_dir repo) (remote repo) (working_copy w) of
          Inl e \<Rightarrow> (Inl e, w)
        | Inr branches \<Rightarrow>
            (case versions_best_match git branches distribution_version of
               Inl e \<Rightarrow> (Inl e, w)
             | Inr branch \<Rightarrow>
                 (case found_branch branch of
                    Some b \<Rightarrow>
                      (case checkout git (tracks_dir repo) b
                              (logged (Log_Info (checking_out b (tracks_dir repo) distribution_version)) w) of
                         (Inl e, w1) \<Rightarrow> (Inl e, w1)
                       | (Inr u, w1) \<Rightarrow>
                           (case rebase git (tracks_dir repo) b
                                   (logged (Log_Info (''Rebasing on ['' @ b @ ''] in ['' @ tracks_dir repo @
                                      ''] for distribution version ['' @ version_str distribution_version @
                                      ''].'')) w1) of
                              (Inl SupplyError, w2) \<Rightarrow>
                                (Inr (),
                                 logged (Console_Warn (''Local changes in ['' @ tracks_dir repo @
                                        ''] prevent track update from remote. Please commit your changes.''))
                                   (logged (Log_Exception (''Cannot rebase due to local changes in ['' @
                                           tracks_dir repo @ '']'')) w2))
                            | (r, w2) \<Rightarrow> (r, w2)))
                  | None \<Rightarrow>
                      update_local git repo distribution_version
                        (logged (Log_Warn (''Could not find track data remotely for distribution version ['' @
                                version_str distribution_version @ '']. Trying to find track data locally.'')) w)))
      else update_local git repo distribution_version w)"

text \<open>
  \<^verbatim>\<open>TrackRepository._update(distribution_version)\<close>: a \<^verbatim>\<open>SupplyError\<close> that leaves the body
  becomes a \<^verbatim>\<open>DataError\<close>.
\<close>

definition update ::
  "'g repo_functions \<Rightarrow> TrackRepository \<Rightarrow> string option \<Rightarrow> 'g repo_world \<Rightarrow> (error + unit) \<times> 'g repo_world" where
  "update git repo distribution_version w =
     (case update_body git repo distribution_version w of
        (Inl SupplyError, w1) \<Rightarrow>
          (Inl (DataError (''Cannot update track data in ['' @ tracks_dir repo @ ''].'')), w1)
      | (r, w1) \<Rightarrow> (r, w1))"

section \<open>Notions used to state the properties\<close>

text \<open>
  An operation is typed by its own specification when its parameters are a dict whose
  \<^verbatim>\<open>operation-type\<close> resolves to its type: to the name that
  \<^verbatim>\<open>from_hyphenated_string\<close> returns, or to the declared value itself.
\<close>

definition typed_by_its_spec :: "externals \<Rightarrow> Operation \<Rightarrow> bool" where
  "typed_by_its_spec ext made =
     (\<exists>kvs tn. params made = JObj kvs \<and> map_of kvs ''operation-type'' = Some tn \<and>
        operation_type made = (case from_hyphenated_string ext tn of Inr b \<Rightarrow> JStr b | Inl e \<Rightarrow> tn))"

text \<open>
  A type is staged in the files \<open>fs\<close> when it has no archive, or its archive is there
  with the expected compressed size and the decompressed file is there with the expected
  uncompressed size.
\<close>

definition staged :: "stager \<Rightarrow> files \<Rightarrow> Type \<Rightarrow> bool" where
  "staged env fs t =
     (case document_archive t of
        None \<Rightarrow> True
      | Some archive \<Rightarrow>
          archive = [] \<or>
          (already_downloaded fs archive (compressed_size_in_bytes t) \<and>
           (case io_splitext env (JStr archive) of
              Inl e \<Rightarrow> False
            | Inr (basename, extension) \<Rightarrow>
                already_downloaded fs basename (uncompressed_size_in_bytes t))))"

definition all_types :: "Track \<Rightarrow> Type set" where
  "all_types track = (\<Union>index\<in>set (indices track). set (index_types index))"

text \<open>
  Building an offset table may write files of its own; \<open>keeps_staged\<close> says that, when it
  returns, it has left the staged types of \<open>S\<close> staged.
\<close>

definition keeps_staged :: "stager \<Rightarrow> Type set \<Rightarrow> bool" where
  "keeps_staged env S =
     (\<forall>p fs fs'. io_prepare_file_offset_table env p fs = (Inr (), fs') \<longrightarrow>
        (\<forall>t\<in>S. staged env fs t \<longrightarrow> staged env fs' t))"

fun is_offset_table :: "io_event \<Rightarrow> bool" where
  "is_offset_table (Offset_Table p) = True"
| "is_offset_table ev = False"


definition only_offset_tables :: "world \<Rightarrow> world \<Rightarrow> bool" where
  "only_offset_tables w w' = (\<exists>evs. io_log w' = io_log w @ evs \<and> list_all is_offset_table evs)"

section \<open>Concrete inputs\<close>

text \<open>
  A reader whose built-in operation types are \<open>Index\<close>, \<open>ForceMerge\<close> and \<open>IndexStats\<close>, whose
  \<^verbatim>\<open>Operation\<close> constructor accepts everything, and whose \<^verbatim>\<open>io.splitext\<close> cuts the last
  extension off a file name.
\<close>

definition demo_kinds :: "string list" where
  "demo_kinds = [''Index'', ''ForceMerge'', ''IndexStats'']"

definition demo_splitext :: "json \<Rightarrow> error + string \<times> string" where
  "demo_splitext v =
     (case v of
        JStr s \<Rightarrow>
          Inr (rev (tl (dropWhile (\<lambda>c. c \<noteq> CHR ''.'') (rev s))),
               CHR ''.'' # rev (takeWhile (\<lambda>c. c \<noteq> CHR ''.'') (rev s)))
      | _ \<Rightarrow> Inl TypeError)"

definition demo_externals :: externals where
  "demo_externals =
     \<lparr>py_repr = (\<lambda>v. ''{}''),
      builtin_kinds = demo_kinds,
      from_hyphenated_other = (\<lambda>v. Inl TypeError),
      Operation_invalid = (\<lambda>made. None),
      io_splitext = demo_splitext,
      has_valid_document_data = (\<lambda>t. Inr (document_archive t \<noteq> None))\<rparr>"

definition index_op :: Operation where
  "index_op = \<lparr>op_name = JStr ''index-append'', operation_type = JStr ''Index'',
                params = JObj [(''name'', JStr ''index-append''), (''operation-type'', JStr ''index'')],
                param_source = JNull\<rparr>"

text \<open>
  A stager whose download leaves 90 bytes in the local file, whose decompression leaves
  the files as they are, and whose offset table is written beside the data file.
\<close>

definition demo_stager :: "bool \<Rightarrow> stager" where
  "demo_stager off =
     \<lparr>py_repr = (\<lambda>v. ''{}''),
      builtin_kinds = demo_kinds,
      from_hyphenated_other = (\<lambda>v. Inl TypeError),
      Operation_invalid = (\<lambda>made. None),
      io_splitext = demo_splitext,
      has_valid_document_data = (\<lambda>t. Inr (document_archive t \<noteq> None)),
      offline = off,
      os_path_basename = (\<lambda>p. rev (takeWhile (\<lambda>c. c \<noteq> CHR ''/'') (rev p))),
      os_path_dirname = (\<lambda>p. rev (tl (dropWhile (\<lambda>c. c \<noteq> CHR ''/'') (rev p)))),
      io_dirname = (\<lambda>p. rev (tl (dropWhile (\<lambda>c. c \<noteq> CHR ''/'') (rev p)))),
      convert_bytes_to_mb = (\<lambda>v. None),
      convert_bytes_to_gb = (\<lambda>v. None),
      io_ensure_dir = (\<lambda>d fs. (Inr (), fs)),
      net_download = (\<lambda>url p size_in_bytes fs. (Inr (), fs(p \<mapsto> 90))),
      io_decompress = (\<lambda>p d fs. (Inr (), fs)),
      io_prepare_file_offset_table = (\<lambda>p fs. (Inr (), fs(p @ ''.offset'' \<mapsto> 0)))\<rparr>"

definition demo_type :: Type where
  "demo_type =
     \<lparr>type_name = JStr ''docs'', mapping_file = ''maps/m.json'',
      document_file = Some ''data/docs.json'', document_archive = Some ''data/docs.json.bz2'',
      number_of_documents = JInt 10, compressed_size_in_bytes = JInt 100,
      uncompressed_size_in_bytes = JInt 1000\<rparr>"


definition demo_track :: Track where
  "demo_track =
     \<lparr>track_name = ''demo'', short_description = JStr ''s'', description = JStr ''d'',
      source_root_url = JStr ''http://host/corpora'', challenges = [],
      indices = [\<lparr>index_name = JStr ''idx'', index_types = [demo_type]\<rparr>]\<rparr>"

text \<open>
  A repository with a remote, online, whose working copy is the pair of its remote and its
  local branches; the best match for a version is the branch of that name.
\<close>

definition demo_git :: "(string list \<times> string list) repo_functions" where
  "demo_git =
     \<lparr>git_branches = (\<lambda>dir rem g. Inr (if rem then fst g else snd g)),
      versions_best_match = (\<lambda>branches v. Inr (case v of None \<Rightarrow> None | Some b \<Rightarrow> find (\<lambda>x. x = b) branches)),
      git_checkout = (\<lambda>dir b g. (Inr (), g)),
      git_rebase = (\<lambda>dir b g. (Inr (), g))\<rparr>"

definition demo_repo :: TrackRepository where
  "demo_repo = \<lparr>remote = True, repo_offline = False, tracks_dir = ''/rally/tracks/default''\<rparr>"

section \<open>Helper lemmas\<close>

lemma and_then_Inr [simp]: "and_then (Inr x) f = f x"
  by (simp add: and_then_def)

lemma and_then_Inl [simp]: "and_then (Inl e) f = Inl e"
  by (simp add: and_then_def)

lemma and_then_eq_Inr: "and_then m f = Inr y \<longleftrightarrow> (\<exists>x. m = Inr x \<and> f x = Inr y)"
  by (cases m) simp_all

lemma sublist_in_right: "sublist xs zs \<Longrightarrow> sublist xs (ys @ zs)"
  by (auto simp: sublist_def) (metis append.assoc)

lemma sublist_at_left: "sublist xs (xs @ zs)"
  by simp

lemma each_stops:
  assumes "each f pre = Inr ys" and "f x = Inl e"
  shows "each f (pre @ x # post) = Inl e"
  using assms by (induction pre arbitrary: ys) (auto split: sum.splits)

lemma descend_append:
  "descend root (pre @ post) = (case descend root pre of Inl e \<Rightarrow> Inl e | Inr v \<Rightarrow> descend v post)"
  by (induction pre arbitrary: root) (auto split: sum.splits)

text \<open>
  A key is missing on the way down a path exactly when the keys before it lead to a dict
  that does not have it.
\<close>

lemma descend_missing:
  assumes "descend root pre = Inr (JObj kvs)" and "map_of kvs k = None"
  shows "descend root (pre @ k # post) = Inl (KeyError k)"
  using assms by (simp add: descend_append)

lemma reader_r_optional [simp]:
  "reader_r repr name (JObj kvs) [k] ctx False d =
     Inr (case map_of kvs k of None \<Rightarrow> d | Some v \<Rightarrow> v)"
  by (simp add: reader_r_def split: option.splits)

lemma reader_r_mandatory_found [simp]:
  "map_of kvs k = Some v \<Longrightarrow> reader_r repr name (JObj kvs) [k] ctx True d = Inr v"
  by (simp add: reader_r_def)

lemma reader_r_not_dict [simp]:
  "\<forall>kvs. root \<noteq> JObj kvs \<Longrightarrow> reader_r repr name root (k # ks) ctx m d = Inl TypeError"
  by (cases root) (simp_all add: reader_r_def)

lemma parse_task_unknown:
  assumes "map_of kvs ''operation'' = Some opn" and "py_hash_key opn = Inr key" and "ops key = None"
  shows "parse_task repr name (JObj kvs) ops ch dw di =
     Inl (TrackSyntaxError (''Track '' @ q @ name @ q @ '' is invalid. '' @
       q @ ''schedule'' @ q @ '' for challenge '' @ q @ py_str repr ch @ q @
       '' contains a non-existing operation '' @ q @ py_str repr opn @ q @
       ''. Please add an operation '' @ q @ py_str repr opn @ q @
       '' to the 'operations' block.''))"
  using assms by (simp add: parse_task_def reader_error_def)

text \<open>What \<^verbatim>\<open>parse_task\<close> returns for a task whose operation is in the table.\<close>

lemma parse_task_found:
  assumes "map_of kvs ''operation'' = Some opn" and "py_hash_key opn = Inr key"
    and "ops key = Some found"
  shows "parse_task repr name (JObj kvs) ops ch dw di =
    Inr \<lparr>operation = found,
         warmup_iterations = (case map_of kvs ''warmup-iterations'' of None \<Rightarrow> dw | Some v \<Rightarrow> v),
         warmup_time_period = (case map_of kvs ''warmup-time-period'' of None \<Rightarrow> JNull | Some v \<Rightarrow> v),
         iterations = (case map_of kvs ''iterations'' of None \<Rightarrow> di | Some v \<Rightarrow> v),
         clients = (case map_of kvs ''clients'' of None \<Rightarrow> JInt 1 | Some v \<Rightarrow> v),
         target_throughput = (case map_of kvs ''target-throughput'' of None \<Rightarrow> JNull | Some v \<Rightarrow> v)\<rparr>"
  using assms by (simp add: parse_task_def)

section \<open>Field lookup\<close>

text \<open>
  Claim C5, as the code has it. A mandatory lookup whose path misses a key (the keys
  \<open>pre\<close> lead to a dict without the next key \<open>k\<close>) fails with a track syntax error whose
  message names the track and the dotted path; it names the error context only when the
  caller passed one that is not empty. The same lookup made as optional returns the
  default and raises nothing.
\<close>

theorem reader_r_missing_field:
  assumes "descend root pre = Inr (JObj kvs)" and "map_of kvs k = None"
  shows "let path = pre @ k # post;
             msg = ''Track '' @ q @ name @ q @ '' is invalid. Mandatory element '' @ q @
                   join ''.'' path @ q @
                   (if py_truthy error_ctx
                    then '' is missing in '' @ q @ py_str repr error_ctx @ q @ ''.''
                    else '' is missing.'')
         in reader_r repr name root path error_ctx True d = Inl (TrackSyntaxError msg)
          \<and> sublist name msg \<and> sublist (join ''.'' path) msg
          \<and> (py_truthy error_ctx \<longrightarrow> sublist (py_str repr error_ctx) msg)
          \<and> reader_r repr name root path error_ctx False d = Inr d"
proof -
  have missing: "descend root (pre @ k # post) = Inl (KeyError k)"
    using assms by (rule descend_missing)
  show ?thesis
    unfolding Let_def
  proof (intro conjI impI)
    show "reader_r repr name root (pre @ k # post) error_ctx True d =
      Inl (TrackSyntaxError (''Track '' @ q @ name @ q @ '' is invalid. Mandatory element '' @ q @
         join ''.'' (pre @ k # post) @ q @
         (if py_truthy error_ctx then '' is missing in '' @ q @ py_str repr error_ctx @ q @ ''.''
          else '' is missing.'')))"
      using missing by (simp add: reader_r_def reader_error_def)
    show "reader_r repr name root (pre @ k # post) error_ctx False d = Inr d"
      using missing by (simp add: reader_r_def)
    show "sublist name (''Track '' @ q @ name @ q @ rest)" for rest
      by (intro sublist_in_right sublist_at_left)
    show "sublist (join ''.'' (pre @ k # post))
           (''Track '' @ q @ name @ q @ '' is invalid. Mandatory element '' @ q @
            join ''.'' (pre @ k # post) @ q @ rest)" for rest
      by (intro sublist_in_right sublist_at_left)
  next
    assume "py_truthy error_ctx"
    then show "sublist (py_str repr error_ctx)
           (''Track '' @ q @ name @ q @ '' is invalid. Mandatory element '' @ q @
            join ''.'' (pre @ k # post) @ q @
            (if py_truthy error_ctx then '' is missing in '' @ q @ py_str repr error_ctx @ q @ ''.''
             else '' is missing.''))"
      by (simp del: append.simps) (intro sublist_in_right sublist_at_left)
  qed
qed

text \<open>
  The lookup of \<^verbatim>\<open>meta.data-url\<close> in a track whose \<^verbatim>\<open>meta\<close> block has only a description,
  with the context \<^verbatim>\<open>track\<close>: mandatory, and optional with the default 7.
\<close>

theorem reader_r_missing_field_witness:
  "descend (JObj [(''meta'', JObj [(''description'', JStr ''d'')])]) [''meta'']
     = Inr (JObj [(''description'', JStr ''d'')])
   \<and> map_of [(''description'', JStr ''d'')] ''data-url'' = None
   \<and> reader_r (\<lambda>v. []) ''demo'' (JObj [(''meta'', JObj [(''description'', JStr ''d'')])])
        [''meta'', ''data-url''] (JStr ''track'') True (JInt 7)
      = Inl (TrackSyntaxError
          ''Track 'demo' is invalid. Mandatory element 'meta.data-url' is missing in 'track'.'')
   \<and> reader_r (\<lambda>v. []) ''demo'' (JObj [(''meta'', JObj [(''description'', JStr ''d'')])])
        [''meta'', ''data-url''] (JStr ''track'') False (JInt 7) = Inr (JInt 7)"
  using reader_r_missing_field [where root = "JObj [(''meta'', JObj [(''description'', JStr ''d'')])]"
      and pre = "[''meta'']" and kvs = "[(''description'', JStr ''d'')]" and k = "''data-url''"
      and post = "[]" and name = "''demo''" and error_ctx = "JStr ''track''" and repr = "\<lambda>v. []"
      and d = "JInt 7"]
  by (simp add: Let_def q_def)

text \<open>
  Claim C5 as stated does not hold: \<^verbatim>\<open>_create_index\<close> looks the types of an index up
  without an error context, and for the index \<^verbatim>\<open>idx\<close> without types the message names the
  track and the path, and not the index.
\<close>

theorem reader_r_names_no_entity_counterexample:
  "reader_r (py_repr demo_externals) ''demo'' (JObj [(''name'', JStr ''idx'')]) [''types''] JNull True JNull
     = Inl (TrackSyntaxError ''Track 'demo' is invalid. Mandatory element 'types' is missing.'')
   \<and> create_index demo_externals ''demo'' (JObj [(''name'', JStr ''idx'')]) ''maps'' ''data''
     = Inl (TrackSyntaxError ''Track 'demo' is invalid. Mandatory element 'types' is missing.'')
   \<and> \<not> sublist ''idx'' ''Track 'demo' is invalid. Mandatory element 'types' is missing.''"
proof (intro conjI)
  show r: "reader_r (py_repr demo_externals) ''demo'' (JObj [(''name'', JStr ''idx'')]) [''types''] JNull True JNull
     = Inl (TrackSyntaxError ''Track 'demo' is invalid. Mandatory element 'types' is missing.'')"
    by (simp add: reader_r_def reader_error_def q_def)
  show "create_index demo_externals ''demo'' (JObj [(''name'', JStr ''idx'')]) ''maps'' ''data''
     = Inl (TrackSyntaxError ''Track 'demo' is invalid. Mandatory element 'types' is missing.'')"
    by (simp add: create_index_def r)
  show "\<not> sublist ''idx'' ''Track 'demo' is invalid. Mandatory element 'types' is missing.''"
    by code_simp
qed

section \<open>Schedules\<close>

text \<open>
  Claim C3. A schedule entry whose operation \<open>opn\<close> is not in the operations table fails
  with a track syntax error whose message names the challenge and the operation: for a
  task \<^verbatim>\<open>parse_task\<close> raises it whatever the defaults are; a top-level entry (one without
  the key \<^verbatim>\<open>parallel\<close>) raises it from the schedule loop; and a child of a parallel block
  raises it from \<^verbatim>\<open>parse_parallel\<close> and from the schedule loop once the children before
  it have been parsed.
\<close>

theorem unknown_operation_is_syntax_error:
  assumes "map_of kvs ''operation'' = Some opn" and "py_hash_key opn = Inr key"
    and "ops key = None"
  shows "let msg = ''Track '' @ q @ name @ q @ '' is invalid. '' @
             q @ ''schedule'' @ q @ '' for challenge '' @ q @ py_str repr ch @ q @
             '' contains a non-existing operation '' @ q @ py_str repr opn @ q @
             ''. Please add an operation '' @ q @ py_str repr opn @ q @
             '' to the 'operations' block.''
         in parse_task repr name (JObj kvs) ops ch dw di = Inl (TrackSyntaxError msg)
          \<and> (map_of kvs ''parallel'' = None \<longrightarrow>
               parse_schedule_entry repr name ops ch (JObj kvs) = Inl (TrackSyntaxError msg))
          \<and> (map_of block ''tasks'' = Some tasks \<and> py_iter tasks = Inr (pre @ JObj kvs # post) \<and>
              each (\<lambda>task. parse_task repr name task ops ch
                      (case map_of block ''warmup-iterations'' of None \<Rightarrow> JNull | Some v \<Rightarrow> v)
                      (case map_of block ''iterations'' of None \<Rightarrow> JNull | Some v \<Rightarrow> v)) pre
                = Inr parsed \<longrightarrow>
               parse_parallel repr name (JObj block) ops ch = Inl (TrackSyntaxError msg)
             \<and> (map_of entry ''parallel'' = Some (JObj block) \<longrightarrow>
                  parse_schedule_entry repr name ops ch (JObj entry) = Inl (TrackSyntaxError msg)))
          \<and> sublist (py_str repr ch) msg \<and> sublist (py_str repr opn) msg"
proof -
  have task: "parse_task repr name (JObj kvs) ops ch dw di =
     Inl (TrackSyntaxError (''Track '' @ q @ name @ q @ '' is invalid. '' @
       q @ ''schedule'' @ q @ '' for challenge '' @ q @ py_str repr ch @ q @
       '' contains a non-existing operation '' @ q @ py_str repr opn @ q @
       ''. Please add an operation '' @ q @ py_str repr opn @ q @
       '' to the 'operations' block.''))" for dw di
    using assms by (rule parse_task_unknown)
  have block: "parse_parallel repr name (JObj block) ops ch =
     Inl (TrackSyntaxError (''Track '' @ q @ name @ q @ '' is invalid. '' @
       q @ ''schedule'' @ q @ '' for challenge '' @ q @ py_str repr ch @ q @
       '' contains a non-existing operation '' @ q @ py_str repr opn @ q @
       ''. Please add an operation '' @ q @ py_str repr opn @ q @
       '' to the 'operations' block.''))"
    if "map_of block ''tasks'' = Some tasks" and "py_iter tasks = Inr (pre @ JObj kvs # post)"
      and "each (\<lambda>task. parse_task repr name task ops ch
                      (case map_of block ''warmup-iterations'' of None \<Rightarrow> JNull | Some v \<Rightarrow> v)
                      (case map_of block ''iterations'' of None \<Rightarrow> JNull | Some v \<Rightarrow> v)) pre
                = Inr parsed"
    using that(1,2) each_stops [OF that(3) task] by (simp add: parse_parallel_def)
  show ?thesis
    unfolding Let_def
  proof (intro conjI impI; (elim conjE)?)
    show "parse_task repr name (JObj kvs) ops ch dw di =
     Inl (TrackSyntaxError (''Track '' @ q @ name @ q @ '' is invalid. '' @
       q @ ''schedule'' @ q @ '' for challenge '' @ q @ py_str repr ch @ q @
       '' contains a non-existing operation '' @ q @ py_str repr opn @ q @
       ''. Please add an operation '' @ q @ py_str repr opn @ q @
       '' to the 'operations' block.''))"
      by (rule task)
    show "parse_schedule_entry repr name ops ch (JObj kvs) =
     Inl (TrackSyntaxError (''Track '' @ q @ name @ q @ '' is invalid. '' @
       q @ ''schedule'' @ q @ '' for challenge '' @ q @ py_str repr ch @ q @
       '' contains a non-existing operation '' @ q @ py_str repr opn @ q @
       ''. Please add an operation '' @ q @ py_str repr opn @ q @
       '' to the 'operations' block.''))"
      if "map_of kvs ''parallel'' = None"
      using that by (simp add: parse_schedule_entry_def task)
    show "parse_parallel repr name (JObj block) ops ch =
     Inl (TrackSyntaxError (''Track '' @ q @ name @ q @ '' is invalid. '' @
       q @ ''schedule'' @ q @ '' for challenge '' @ q @ py_str repr ch @ q @
       '' contains a non-existing operation '' @ q @ py_str repr opn @ q @
       ''. Please add an operation '' @ q @ py_str repr opn @ q @
       '' to the 'operations' block.''))"
      if "map_of block ''tasks'' = Some tasks" and "py_iter tasks = Inr (pre @ JObj kvs # post)"
        and "each (\<lambda>task. parse_task repr name task ops ch
                      (case map_of block ''warmup-iterations'' of None \<Rightarrow> JNull | Some v \<Rightarrow> v)
                      (case map_of block ''iterations'' of None \<Rightarrow> JNull | Some v \<Rightarrow> v)) pre
                = Inr parsed"
      using that by (rule block)
    show "parse_schedule_entry repr name ops ch (JObj entry) =
     Inl (TrackSyntaxError (''Track '' @ q @ name @ q @ '' is invalid. '' @
       q @ ''schedule'' @ q @ '' for challenge '' @ q @ py_str repr ch @ q @
       '' contains a non-existing operation '' @ q @ py_str repr opn @ q @
       ''. Please add an operation '' @ q @ py_str repr opn @ q @
       '' to the 'operations' block.''))"
      if "map_of block ''tasks'' = Some tasks" and "py_iter tasks = Inr (pre @ JObj kvs # post)"
        and "each (\<lambda>task. parse_task repr name task ops ch
                      (case map_of block ''warmup-iterations'' of None \<Rightarrow> JNull | Some v \<Rightarrow> v)
                      (case map_of block ''iterations'' of None \<Rightarrow> JNull | Some v \<Rightarrow> v)) pre
                = Inr parsed"
        and "map_of entry ''parallel'' = Some (JObj block)"
      using that(4) block [OF that(1-3)] by (simp add: parse_schedule_entry_def)
    show "sublist (py_str repr ch) (''Track '' @ q @ name @ q @ '' is invalid. '' @
        q @ ''schedule'' @ q @ '' for challenge '' @ q @ py_str repr ch @ q @ rest)" for rest
      by (intro sublist_in_right sublist_at_left)
    show "sublist (py_str repr opn) (''Track '' @ q @ name @ q @ '' is invalid. '' @
        q @ ''schedule'' @ q @ '' for challenge '' @ q @ py_str repr ch @ q @
             '' contains a non-existing operation '' @ q @ py_str repr opn @ q @ rest)" for rest
      by (intro sublist_in_right sublist_at_left)
  qed
qed

text \<open>
  The challenge \<^verbatim>\<open>append\<close> schedules the operation \<^verbatim>\<open>search\<close>, which the table (holding
  only \<^verbatim>\<open>index-append\<close>) does not have: as a top-level task, and as the second child of a
  parallel block whose first child is fine.
\<close>

theorem unknown_operation_is_syntax_error_witness:
  "parse_schedule_entry (\<lambda>v. []) ''demo'' [JStr ''index-append'' \<mapsto> index_op] (JStr ''append'')
     (JObj [(''operation'', JStr ''search''), (''clients'', JInt 2)])
   = Inl (TrackSyntaxError ''Track 'demo' is invalid. 'schedule' for challenge 'append' contains a non-existing operation 'search'. Please add an operation 'search' to the 'operations' block.'')
   \<and> parse_schedule_entry (\<lambda>v. []) ''demo'' [JStr ''index-append'' \<mapsto> index_op] (JStr ''append'')
     (JObj [(''parallel'', JObj [(''tasks'',
        JList [JObj [(''operation'', JStr ''index-append'')],
               JObj [(''operation'', JStr ''search''), (''clients'', JInt 2)]])])])
   = Inl (TrackSyntaxError ''Track 'demo' is invalid. 'schedule' for challenge 'append' contains a non-existing operation 'search'. Please add an operation 'search' to the 'operations' block.'')"
  using unknown_operation_is_syntax_error [where kvs = "[(''operation'', JStr ''search''), (''clients'', JInt 2)]"
      and opn = "JStr ''search''" and key = "JStr ''search''"
      and ops = "[JStr ''index-append'' \<mapsto> index_op]" and name = "''demo''" and repr = "\<lambda>v. []"
      and ch = "JStr ''append''" and dw = JNull and di = JNull
      and block = "[(''tasks'', JList [JObj [(''operation'', JStr ''index-append'')],
               JObj [(''operation'', JStr ''search''), (''clients'', JInt 2)]])]"
      and tasks = "JList [JObj [(''operation'', JStr ''index-append'')],
               JObj [(''operation'', JStr ''search''), (''clients'', JInt 2)]]"
      and pre = "[JObj [(''operation'', JStr ''index-append'')]]" and post = "[]"
      and parsed = "[\<lparr>operation = index_op, warmup_iterations = JNull, warmup_time_period = JNull,
                      iterations = JNull, clients = JInt 1, target_throughput = JNull\<rparr>]"
      and entry = "[(''parallel'', JObj [(''tasks'',
        JList [JObj [(''operation'', JStr ''index-append'')],
               JObj [(''operation'', JStr ''search''), (''clients'', JInt 2)]])])]"]
  by (simp add: Let_def q_def parse_task_def)

text \<open>
  Claim C10. \<^verbatim>\<open>parse_task\<close> indexes the task with \<^verbatim>\<open>operation\<close> before anything else: a
  task without that key raises a plain \<^verbatim>\<open>KeyError\<close> for the key, from \<^verbatim>\<open>parse_task\<close> and
  from the schedule loop; and whenever \<^verbatim>\<open>parse_task\<close> returns a task or raises a track
  syntax error, the task specification is a dict that has the key.
\<close>

theorem parse_task_without_operation_key:
  "(map_of kvs ''operation'' = None \<longrightarrow>
      parse_task repr name (JObj kvs) ops ch dw di = Inl (KeyError ''operation'')
    \<and> (map_of kvs ''parallel'' = None \<longrightarrow>
         parse_schedule_entry repr name ops ch (JObj kvs) = Inl (KeyError ''operation'')))
   \<and> ((\<exists>t. parse_task repr name task_spec ops ch dw di = Inr t)
       \<or> (\<exists>m. parse_task repr name task_spec ops ch dw di = Inl (TrackSyntaxError m))
      \<longrightarrow> (\<exists>kvs v. task_spec = JObj kvs \<and> map_of kvs ''operation'' = Some v))"
proof (intro conjI impI)
  assume "map_of kvs ''operation'' = None"
  then show t: "parse_task repr name (JObj kvs) ops ch dw di = Inl (KeyError ''operation'')" for dw di
    by (simp add: parse_task_def)
  assume "map_of kvs ''parallel'' = None"
  then show "parse_schedule_entry repr name ops ch (JObj kvs) = Inl (KeyError ''operation'')"
    by (simp add: parse_schedule_entry_def t)
next
  assume ok: "(\<exists>t. parse_task repr name task_spec ops ch dw di = Inr t)
       \<or> (\<exists>m. parse_task repr name task_spec ops ch dw di = Inl (TrackSyntaxError m))"
  show "\<exists>kvs v. task_spec = JObj kvs \<and> map_of kvs ''operation'' = Some v"
  proof (cases task_spec)
    case (JObj kvs)
    with ok show ?thesis
      by (cases "map_of kvs ''operation''") (auto simp: parse_task_def)
  qed (use ok in \<open>auto simp: parse_task_def\<close>)
qed

text \<open>
  A task that gives its clients and no operation; and a task naming \<^verbatim>\<open>index-append\<close>,
  which parses, so it has the key.
\<close>

theorem parse_task_without_operation_key_witness:
  "parse_task (\<lambda>v. []) ''demo'' (JObj [(''clients'', JInt 2)]) [JStr ''index-append'' \<mapsto> index_op]
      (JStr ''append'') (JInt 0) (JInt 1) = Inl (KeyError ''operation'')
   \<and> parse_schedule_entry (\<lambda>v. []) ''demo'' [JStr ''index-append'' \<mapsto> index_op] (JStr ''append'')
      (JObj [(''clients'', JInt 2)]) = Inl (KeyError ''operation'')
   \<and> parse_task (\<lambda>v. []) ''demo'' (JObj [(''operation'', JStr ''index-append'')])
      [JStr ''index-append'' \<mapsto> index_op] (JStr ''append'') (JInt 0) (JInt 1)
     = Inr \<lparr>operation = index_op, warmup_iterations = JInt 0, warmup_time_period = JNull,
            iterations = JInt 1, clients = JInt 1, target_throughput = JNull\<rparr>
   \<and> (\<exists>kvs v. JObj [(''operation'', JStr ''index-append'')] = JObj kvs
         \<and> map_of kvs ''operation'' = Some v)"
  using parse_task_without_operation_key [where kvs = "[(''clients'', JInt 2)]" and repr = "\<lambda>v. []"
      and name = "''demo''" and ops = "[JStr ''index-append'' \<mapsto> index_op]" and ch = "JStr ''append''"
      and dw = "JInt 0" and di = "JInt 1"
      and task_spec = "JObj [(''operation'', JStr ''index-append'')]"]
  by (simp add: parse_task_def)

text \<open>
  The children of a parallel block are parsed by \<^verbatim>\<open>parse_task\<close> with the values the block
  declares as defaults, and with \<^verbatim>\<open>None\<close> for a default it does not declare.
\<close>

lemma parse_parallel_children:
  assumes "map_of block ''tasks'' = Some tasks" and "py_iter tasks = Inr specs"
  shows "parse_parallel repr name (JObj block) ops ch =
     and_then
       (each (\<lambda>task. parse_task repr name task ops ch
                (case map_of block ''warmup-iterations'' of None \<Rightarrow> JNull | Some v \<Rightarrow> v)
                (case map_of block ''iterations'' of None \<Rightarrow> JNull | Some v \<Rightarrow> v)) specs)
       (\<lambda>parsed. Inr \<lparr>parallel_tasks = parsed,
                      parallel_clients = (case map_of block ''clients'' of None \<Rightarrow> JNull | Some v \<Rightarrow> v)\<rparr>)"
  using assms by (simp add: parse_parallel_def)

text \<open>
  Claim C1, at an input where the code departs from it. The parallel block declares
  neither \<^verbatim>\<open>warmup-iterations\<close> nor \<^verbatim>\<open>iterations\<close>, and neither does its child:
  \<^verbatim>\<open>parse_parallel\<close> passes the block's missing values on as \<^verbatim>\<open>None\<close>, so the child's
  warmup-iterations and iterations are \<^verbatim>\<open>None\<close>, where the same task at the top level of
  the schedule gets 0 and 1.
\<close>

theorem parallel_child_defaults_are_None:
  "parse_schedule_entry (\<lambda>v. []) ''demo'' [JStr ''index-append'' \<mapsto> index_op] (JStr ''append'')
     (JObj [(''parallel'', JObj [(''tasks'', JList [JObj [(''operation'', JStr ''index-append'')]])])])
   = Inr (A_Parallel \<lparr>parallel_tasks =
            [\<lparr>operation = index_op, warmup_iterations = JNull, warmup_time_period = JNull,
              iterations = JNull, clients = JInt 1, target_throughput = JNull\<rparr>],
          parallel_clients = JNull\<rparr>)
   \<and> parse_schedule_entry (\<lambda>v. []) ''demo'' [JStr ''index-append'' \<mapsto> index_op] (JStr ''append'')
     (JObj [(''operation'', JStr ''index-append'')])
   = Inr (A_Task \<lparr>operation = index_op, warmup_iterations = JInt 0, warmup_time_period = JNull,
            iterations = JInt 1, clients = JInt 1, target_throughput = JNull\<rparr>)"
  by (simp add: parse_schedule_entry_def parse_parallel_def parse_task_def)

section \<open>Operations\<close>

lemma match_kind_Some:
  "match_kind kinds s = Some kind \<Longrightarrow> kind \<in> set kinds \<and> fold_kind kind = fold_kind s"
  by (auto simp: match_kind_def find_Some_iff)

lemma match_kind_None:
  "match_kind kinds s = None \<Longrightarrow> \<forall>kind\<in>set kinds. fold_kind kind \<noteq> fold_kind s"
  by (auto simp: match_kind_def find_None_iff)

text \<open>
  What the loop body of \<^verbatim>\<open>parse_operations\<close> does with the answer \<open>r\<close> of
  \<^verbatim>\<open>OperationType.from_hyphenated_string\<close>: the name it returns is stored, and a
  \<^verbatim>\<open>KeyError\<close> stores the declared type as it is.
\<close>

lemma parse_operation_type:
  assumes "map_of kvs ''name'' = Some opn" and "py_hash_key opn = Inr key"
    and "map_of kvs ''operation-type'' = Some tn"
    and "from_hyphenated_string ext tn = r" and "r = Inr b \<or> r = Inl (KeyError k)"
  shows "parse_operation ext name ops (JObj kvs) =
     (case Operation_invalid ext
             \<lparr>op_name = opn, operation_type = (case r of Inr b \<Rightarrow> JStr b | Inl e \<Rightarrow> tn),
              params = JObj kvs,
              param_source = (case map_of kvs ''param-source'' of None \<Rightarrow> JNull | Some v \<Rightarrow> v)\<rparr> of
        None \<Rightarrow>
          Inr (ops(key \<mapsto>
            \<lparr>op_name = opn, operation_type = (case r of Inr b \<Rightarrow> JStr b | Inl e \<Rightarrow> tn),
             params = JObj kvs,
             param_source = (case map_of kvs ''param-source'' of None \<Rightarrow> JNull | Some v \<Rightarrow> v)\<rparr>))
      | Some e \<Rightarrow>
          Inl (TrackSyntaxError (''Invalid operation ['' @ py_str (py_repr ext) opn @ '']: '' @ e)))"
  using assms by (auto simp: parse_operation_def Let_def split: option.splits)

text \<open>The loop of \<^verbatim>\<open>parse_operations\<close> over a list in two parts.\<close>

lemma parse_operations_loop_append:
  "parse_operations_loop ext name ops (pre @ post) =
     (case parse_operations_loop ext name ops pre of
        Inl e \<Rightarrow> Inl e
      | Inr table \<Rightarrow> parse_operations_loop ext name table post)"
  by (induction pre arbitrary: ops) (auto split: sum.splits)

lemma parse_operation_typed:
  assumes "parse_operation ext name ops op_spec = Inr table"
    and "\<forall>k m. ops k = Some m \<longrightarrow> typed_by_its_spec ext m"
  shows "\<forall>k m. table k = Some m \<longrightarrow> typed_by_its_spec ext m"
proof (cases op_spec)
  case (JObj kvs)
  from assms(1) obtain opn tn where n: "map_of kvs ''name'' = Some opn"
    and t: "map_of kvs ''operation-type'' = Some tn"
    unfolding JObj parse_operation_def
    by (cases "map_of kvs ''name''"; cases "map_of kvs ''operation-type''")
       (auto simp: reader_r_def reader_error_def)
  from assms(1) n t obtain key where k: "py_hash_key opn = Inr key"
    unfolding JObj parse_operation_def
    by (cases "py_hash_key opn")
       (auto simp: Let_def split: sum.splits error.splits option.splits)
  from assms(1) n t have "(\<exists>b. from_hyphenated_string ext tn = Inr b) \<or>
      (\<exists>x. from_hyphenated_string ext tn = Inl (KeyError x))"
    unfolding JObj parse_operation_def
    by (auto split: sum.splits error.splits)
  then obtain b x where r: "from_hyphenated_string ext tn = Inr b \<or>
      from_hyphenated_string ext tn = Inl (KeyError x)"
    by blast
  let ?made = "\<lparr>op_name = opn,
      operation_type = (case from_hyphenated_string ext tn of Inr b \<Rightarrow> JStr b | Inl e \<Rightarrow> tn),
      params = JObj kvs,
      param_source = (case map_of kvs ''param-source'' of None \<Rightarrow> JNull | Some v \<Rightarrow> v)\<rparr>"
  from parse_operation_type [OF n k t refl r, of name ops] assms(1)
  have table: "table = ops(key \<mapsto> ?made)"
    unfolding JObj by (auto split: option.splits)
  have "typed_by_its_spec ext ?made"
    unfolding typed_by_its_spec_def using t by auto
  with assms(2) show ?thesis
    unfolding table by auto
qed (use assms(1) in \<open>simp_all add: parse_operation_def\<close>)

lemma parse_operations_loop_typed:
  assumes "parse_operations_loop ext name ops specs = Inr table"
    and "\<forall>k m. ops k = Some m \<longrightarrow> typed_by_its_spec ext m"
  shows "\<forall>k m. table k = Some m \<longrightarrow> typed_by_its_spec ext m"
  using assms
proof (induction specs arbitrary: ops)
  case Nil
  then show ?case by simp
next
  case (Cons op_spec specs)
  from Cons.prems(1) obtain next_ops where
    one: "parse_operation ext name ops op_spec = Inr next_ops"
    and rest: "parse_operations_loop ext name next_ops specs = Inr table"
    by (cases "parse_operation ext name ops op_spec") auto
  from parse_operation_typed [OF one Cons.prems(2)] Cons.IH [OF rest] show ?case
    by blast
qed

text \<open>
  Claim C6. The specifications \<open>pre\<close> have been parsed into the table, and the next one
  has a name and the operation-type string \<open>s\<close>. Then \<^verbatim>\<open>parse_operations\<close> adds the
  operation to the table (unless the constructor of \<^verbatim>\<open>Operation\<close> itself rejects it), and
  the type it stores is: the own name of a built-in kind that agrees with \<open>s\<close> up to case
  and hyphens, when there is such a kind; the string \<open>s\<close> as it is, when there is none.
  And in every table that \<^verbatim>\<open>parse_operations\<close> returns, every operation is typed by its own
  specification in this way.
\<close>

theorem operation_type_is_builtin_or_verbatim:
  assumes "parse_operations ext name (JList pre) = Inr table"
    and "map_of kvs ''name'' = Some opn" and "py_hash_key opn = Inr key"
    and "map_of kvs ''operation-type'' = Some (JStr s)"
  shows "let stored = (case match_kind (builtin_kinds ext) s of Some kind \<Rightarrow> JStr kind | None \<Rightarrow> JStr s);
             made = \<lparr>op_name = opn, operation_type = stored, params = JObj kvs,
                     param_source = (case map_of kvs ''param-source'' of None \<Rightarrow> JNull | Some v \<Rightarrow> v)\<rparr>
         in parse_operations ext name (JList (pre @ [JObj kvs])) =
              (case Operation_invalid ext made of
                 None \<Rightarrow> Inr (table(key \<mapsto> made))
               | Some e \<Rightarrow>
                   Inl (TrackSyntaxError (''Invalid operation ['' @ py_str (py_repr ext) opn @ '']: '' @ e)))
          \<and> ((\<exists>kind\<in>set (builtin_kinds ext). fold_kind kind = fold_kind s) \<longrightarrow>
               (\<exists>kind\<in>set (builtin_kinds ext). fold_kind kind = fold_kind s \<and> stored = JStr kind))
          \<and> ((\<forall>kind\<in>set (builtin_kinds ext). fold_kind kind \<noteq> fold_kind s) \<longrightarrow> stored = JStr s)
          \<and> (\<forall>ops_specs returned k m.
                parse_operations ext name ops_specs = Inr returned \<and> returned k = Some m \<longrightarrow>
                typed_by_its_spec ext m)"
proof -
  let ?stored = "case match_kind (builtin_kinds ext) s of Some kind \<Rightarrow> JStr kind | None \<Rightarrow> JStr s"
  let ?made = "\<lparr>op_name = opn, operation_type = ?stored, params = JObj kvs,
                 param_source = (case map_of kvs ''param-source'' of None \<Rightarrow> JNull | Some v \<Rightarrow> v)\<rparr>"
  have r: "from_hyphenated_string ext (JStr s) =
      (case match_kind (builtin_kinds ext) s of Some kind \<Rightarrow> Inr kind | None \<Rightarrow> Inl (KeyError s))"
    by (simp add: from_hyphenated_string_def)
  have stored: "(case from_hyphenated_string ext (JStr s) of Inr b \<Rightarrow> JStr b | Inl e \<Rightarrow> JStr s) = ?stored"
    by (simp add: r split: option.splits)
  have "\<exists>b k. from_hyphenated_string ext (JStr s) = Inr b \<or>
      from_hyphenated_string ext (JStr s) = Inl (KeyError k)"
    by (simp add: r split: option.splits)
  then obtain b k where "from_hyphenated_string ext (JStr s) = Inr b \<or>
      from_hyphenated_string ext (JStr s) = Inl (KeyError k)"
    by blast
  from parse_operation_type [OF assms(2-4) refl this, of name table]
  have one: "parse_operation ext name table (JObj kvs) =
      (case Operation_invalid ext ?made of
         None \<Rightarrow> Inr (table(key \<mapsto> ?made))
       | Some e \<Rightarrow>
           Inl (TrackSyntaxError (''Invalid operation ['' @ py_str (py_repr ext) opn @ '']: '' @ e)))"
    by (simp only: stored)
  have added: "parse_operations ext name (JList (pre @ [JObj kvs])) =
      (case Operation_invalid ext ?made of
         None \<Rightarrow> Inr (table(key \<mapsto> ?made))
       | Some e \<Rightarrow>
           Inl (TrackSyntaxError (''Invalid operation ['' @ py_str (py_repr ext) opn @ '']: '' @ e)))"
    using assms(1) one
    by (simp add: parse_operations_def parse_operations_loop_append split: option.splits)
  have matched: "\<exists>kind\<in>set (builtin_kinds ext). fold_kind kind = fold_kind s \<and> ?stored = JStr kind"
    if "\<exists>kind\<in>set (builtin_kinds ext). fold_kind kind = fold_kind s"
  proof (cases "match_kind (builtin_kinds ext) s")
    case None
    from match_kind_None [OF None] that show ?thesis by blast
  next
    case (Some kind)
    from match_kind_Some [OF Some] Some show ?thesis by auto
  qed
  have verbatim: "?stored = JStr s"
    if "\<forall>kind\<in>set (builtin_kinds ext). fold_kind kind \<noteq> fold_kind s"
  proof (cases "match_kind (builtin_kinds ext) s")
    case None
    then show ?thesis by simp
  next
    case (Some kind)
    from match_kind_Some [OF Some] that show ?thesis by blast
  qed
  have typed: "typed_by_its_spec ext m"
    if "parse_operations ext name ops_specs = Inr returned" "returned k = Some m"
    for ops_specs returned k m
  proof -
    from that(1) obtain specs where
      "parse_operations_loop ext name Map.empty specs = Inr returned"
      by (cases "py_iter ops_specs") (auto simp: parse_operations_def)
    from parse_operations_loop_typed [OF this] that(2) show ?thesis by simp
  qed
  from added matched verbatim typed show ?thesis
    unfolding Let_def by blast
qed

text \<open>
  With the built-in types \<open>Index\<close>, \<open>ForceMerge\<close> and \<open>IndexStats\<close>: the declared type
  \<^verbatim>\<open>Force-merge\<close> is stored as \<open>ForceMerge\<close>, and the declared type \<^verbatim>\<open>my-bulk\<close> of the
  operation after it is stored as it is.
\<close>

theorem operation_type_is_builtin_or_verbatim_witness:
  "parse_operations demo_externals ''demo'' (JList []) = Inr Map.empty
   \<and> parse_operations demo_externals ''demo''
       (JList [JObj [(''name'', JStr ''merge''), (''operation-type'', JStr ''Force-merge'')]])
     = Inr [JStr ''merge'' \<mapsto>
          \<lparr>op_name = JStr ''merge'', operation_type = JStr ''ForceMerge'',
           params = JObj [(''name'', JStr ''merge''), (''operation-type'', JStr ''Force-merge'')],
           param_source = JNull\<rparr>]
   \<and> parse_operations demo_externals ''demo''
       (JList [JObj [(''name'', JStr ''merge''), (''operation-type'', JStr ''Force-merge'')],
               JObj [(''name'', JStr ''bulk''), (''operation-type'', JStr ''my-bulk'')]])
     = Inr [JStr ''merge'' \<mapsto>
          \<lparr>op_name = JStr ''merge'', operation_type = JStr ''ForceMerge'',
           params = JObj [(''name'', JStr ''merge''), (''operation-type'', JStr ''Force-merge'')],
           param_source = JNull\<rparr>,
         JStr ''bulk'' \<mapsto>
          \<lparr>op_name = JStr ''bulk'', operation_type = JStr ''my-bulk'',
           params = JObj [(''name'', JStr ''bulk''), (''operation-type'', JStr ''my-bulk'')],
           param_source = JNull\<rparr>]"
proof -
  let ?merge = "[(''name'', JStr ''merge''), (''operation-type'', JStr ''Force-merge'')]"
  let ?bulk = "[(''name'', JStr ''bulk''), (''operation-type'', JStr ''my-bulk'')]"
  let ?merged = "[JStr ''merge'' \<mapsto>
          \<lparr>op_name = JStr ''merge'', operation_type = JStr ''ForceMerge'',
           params = JObj ?merge, param_source = JNull\<rparr>]"
  have kinds: "builtin_kinds demo_externals = demo_kinds"
    and accepts: "Operation_invalid demo_externals = (\<lambda>made. None)"
    by (simp_all add: demo_externals_def)
  have m1: "match_kind demo_kinds ''Force-merge'' = Some ''ForceMerge''"
    by (simp add: match_kind_def demo_kinds_def fold_kind_def lower_def)
  have m2: "match_kind demo_kinds ''my-bulk'' = None"
    by (simp add: match_kind_def demo_kinds_def fold_kind_def lower_def)
  have none: "parse_operations demo_externals ''demo'' (JList []) = Inr Map.empty"
    by (simp add: parse_operations_def)
  from operation_type_is_builtin_or_verbatim [where ext = demo_externals and name = "''demo''"
      and pre = "[]" and table = Map.empty and kvs = ?merge and opn = "JStr ''merge''"
      and key = "JStr ''merge''" and s = "''Force-merge''"] none
  have one: "parse_operations demo_externals ''demo'' (JList [JObj ?merge]) = Inr ?merged"
    by (simp add: Let_def kinds accepts m1)
  from operation_type_is_builtin_or_verbatim [where ext = demo_externals and name = "''demo''"
      and pre = "[JObj ?merge]" and table = ?merged and kvs = ?bulk and opn = "JStr ''bulk''"
      and key = "JStr ''bulk''" and s = "''my-bulk''"] one
  have two: "parse_operations demo_externals ''demo'' (JList [JObj ?merge, JObj ?bulk])
     = Inr (?merged(JStr ''bulk'' \<mapsto>
          \<lparr>op_name = JStr ''bulk'', operation_type = JStr ''my-bulk'',
           params = JObj ?bulk, param_source = JNull\<rparr>))"
    by (simp add: Let_def kinds accepts m2)
  from none one two show ?thesis by simp
qed

section \<open>Document groups\<close>

text \<open>
  Claim C7, as the code has it. \<^verbatim>\<open>_create_type\<close> returns a type for every specification
  that is a dict with a name and a mapping (and whose documents, if it declares any,
  \<^verbatim>\<open>io.splitext\<close> accepts), whatever sizes it declares: the two sizes of the type are the
  values under \<^verbatim>\<open>compressed-bytes\<close> and \<^verbatim>\<open>uncompressed-bytes\<close>, and \<^verbatim>\<open>None\<close> where the key is
  missing; it has an archive path and a document file exactly when \<^verbatim>\<open>documents\<close> is
  declared and not empty.
\<close>

theorem create_type_sizes:
  assumes "map_of kvs ''name'' = Some n" and "map_of kvs ''mapping'' = Some m"
    and "documents = (case map_of kvs ''documents'' of None \<Rightarrow> JNull | Some v \<Rightarrow> v)"
    and "py_truthy documents \<longrightarrow> io_splitext ext documents = Inr (base, extension)"
  shows "create_type ext name (JObj kvs) mapping_dir data_dir =
     Inr \<lparr>type_name = n,
          mapping_file = mapping_dir @ ''/'' @ py_str (py_repr ext) m,
          document_file = (if py_truthy documents then Some (data_dir @ ''/'' @ base) else None),
          document_archive =
            (if py_truthy documents then Some (data_dir @ ''/'' @ py_str (py_repr ext) documents)
             else None),
          number_of_documents = (case map_of kvs ''document-count'' of None \<Rightarrow> JInt 0 | Some v \<Rightarrow> v),
          compressed_size_in_bytes =
            (case map_of kvs ''compressed-bytes'' of None \<Rightarrow> JNull | Some v \<Rightarrow> v),
          uncompressed_size_in_bytes =
            (case map_of kvs ''uncompressed-bytes'' of None \<Rightarrow> JNull | Some v \<Rightarrow> v)\<rparr>"
  using assms by (simp add: create_type_def)

text \<open>A type that declares its documents and both sizes.\<close>

theorem create_type_sizes_witness:
  "create_type demo_externals ''demo''
     (JObj [(''name'', JStr ''docs''), (''mapping'', JStr ''m.json''),
            (''documents'', JStr ''docs.json.bz2''), (''document-count'', JInt 10),
            (''compressed-bytes'', JInt 100), (''uncompressed-bytes'', JInt 1000)]) ''maps'' ''data''
   = Inr demo_type
   \<and> compressed_size_in_bytes demo_type = JInt 100
   \<and> uncompressed_size_in_bytes demo_type = JInt 1000
   \<and> document_archive demo_type \<noteq> None \<and> document_file demo_type \<noteq> None"
  using create_type_sizes [where ext = demo_externals and name = "''demo''"
      and kvs = "[(''name'', JStr ''docs''), (''mapping'', JStr ''m.json''),
            (''documents'', JStr ''docs.json.bz2''), (''document-count'', JInt 10),
            (''compressed-bytes'', JInt 100), (''uncompressed-bytes'', JInt 1000)]"
      and n = "JStr ''docs''" and m = "JStr ''m.json''" and documents = "JStr ''docs.json.bz2''"
      and base = "''docs.json''" and extension = "''.bz2''"
      and mapping_dir = "''maps''" and data_dir = "''data''"]
  by (simp add: demo_externals_def demo_splitext_def demo_type_def)

text \<open>
  Claim C7 as stated does not hold: a type that declares its documents and neither size
  is parsed, and the result has an archive path and no sizes.
\<close>

theorem create_type_archive_without_sizes_counterexample:
  "create_type demo_externals ''demo''
     (JObj [(''name'', JStr ''docs''), (''mapping'', JStr ''m.json''),
            (''documents'', JStr ''docs.json.bz2'')]) ''maps'' ''data''
   = Inr \<lparr>type_name = JStr ''docs'', mapping_file = ''maps/m.json'',
          document_file = Some ''data/docs.json'', document_archive = Some ''data/docs.json.bz2'',
          number_of_documents = JInt 0,
          compressed_size_in_bytes = JNull, uncompressed_size_in_bytes = JNull\<rparr>"
  by (simp add: create_type_def demo_externals_def demo_splitext_def)

section \<open>Staging: what is already there\<close>

lemma call_log: "call ev f w = (r, w') \<Longrightarrow> io_log w' = io_log w @ [ev]"
  by (auto simp: call_def split: prod.splits)

lemma call_files: "call ev f w = (r, w') \<Longrightarrow> f (files w) = (r, files w')"
  by (auto simp: call_def split: prod.splits)

lemma only_offset_tables_refl: "only_offset_tables w w"
  by (simp add: only_offset_tables_def)

lemma only_offset_tables_trans:
  "only_offset_tables w w1 \<Longrightarrow> only_offset_tables w1 w2 \<Longrightarrow> only_offset_tables w w2"
  by (auto simp: only_offset_tables_def)

lemma call_offset_table: "call (Offset_Table p) f w = (r, w') \<Longrightarrow> only_offset_tables w w'"
  by (auto simp: only_offset_tables_def dest: call_log)

lemma download_skipped:
  "already_downloaded (files w) local_path size_in_bytes \<Longrightarrow>
   download env url local_path size_in_bytes w = (Inr False, w)"
  by (simp add: download_def)

lemma decompress_skipped:
  assumes "io_splitext env (JStr data_set_path) = Inr (basename, extension)"
    and "already_downloaded (files w) basename expected"
  shows "decompress env data_set_path expected w = (Inr (basename, False), w)"
  using assms by (simp add: decompress_def already_downloaded_def split: option.splits)

text \<open>
  For a type whose two files are there with the expected sizes, the loop body does one
  thing: it builds the offset table of the data file.
\<close>

lemma prepare_type_skipped:
  assumes "document_archive t = Some archive" and "archive \<noteq> []"
    and "already_downloaded (files w) archive (compressed_size_in_bytes t)"
    and "io_splitext env (JStr archive) = Inr (basename, extension)"
    and "already_downloaded (files w) basename (uncompressed_size_in_bytes t)"
  shows "prepare_type env root_url t w =
         call (Offset_Table basename) (io_prepare_file_offset_table env basename) w"
  using assms by (simp add: prepare_type_def download_skipped decompress_skipped)

lemma prepare_type_staged:
  assumes "staged env (files w) t"
  shows "prepare_type env root_url t w = (Inr (), w) \<or>
         (\<exists>p. prepare_type env root_url t w =
                call (Offset_Table p) (io_prepare_file_offset_table env p) w)"
proof (cases "document_archive t")
  case None
  then show ?thesis by (simp add: prepare_type_def)
next
  case (Some archive)
  show ?thesis
  proof (cases "archive = []")
    case True
    with Some show ?thesis by (simp add: prepare_type_def)
  next
    case False
    with Some assms obtain basename extension where
      "already_downloaded (files w) archive (compressed_size_in_bytes t)"
      "io_splitext env (JStr archive) = Inr (basename, extension)"
      "already_downloaded (files w) basename (uncompressed_size_in_bytes t)"
      by (auto simp: staged_def split: sum.splits)
    from prepare_type_skipped [OF Some False this] show ?thesis by blast
  qed
qed

text \<open>
  One round of the loop over staged types: only an offset table is built, the types stay
  staged if the round returns, and it returns if building offset tables does (\<open>ok\<close>).
\<close>

lemma prepare_type_keeps:
  assumes "keeps_staged env S" and "\<forall>t\<in>S. staged env (files w) t" and "t \<in> S"
    and "ok \<longrightarrow> (\<forall>p fs. fst (io_prepare_file_offset_table env p fs) = Inr ())"
    and "prepare_type env root_url t w = (r, w')"
  shows "only_offset_tables w w' \<and> (r = Inr () \<longrightarrow> (\<forall>t\<in>S. staged env (files w') t))
         \<and> (ok \<longrightarrow> r = Inr ())"
proof -
  from assms(2,3) have "staged env (files w) t" by blast
  from prepare_type_staged [OF this, of root_url]
  show ?thesis
  proof
    assume "prepare_type env root_url t w = (Inr (), w)"
    with assms(2,5) show ?thesis by (simp add: only_offset_tables_refl)
  next
    assume "\<exists>p. prepare_type env root_url t w =
                 call (Offset_Table p) (io_prepare_file_offset_table env p) w"
    then obtain p where c: "call (Offset_Table p) (io_prepare_file_offset_table env p) w = (r, w')"
      using assms(5) by auto
    from call_files [OF c] have f: "io_prepare_file_offset_table env p (files w) = (r, files w')" .
    from f assms(1,2) have "r = Inr () \<longrightarrow> (\<forall>t\<in>S. staged env (files w') t)"
      unfolding keeps_staged_def by blast
    moreover from f assms(4) have "ok \<longrightarrow> r = Inr ()"
      by (metis fst_conv)
    ultimately show ?thesis using call_offset_table [OF c] by simp
  qed
qed

lemma for_each_keeps:
  assumes step: "\<And>x w r w'. x \<in> set xs \<Longrightarrow> I w \<Longrightarrow> body x w = (r, w') \<Longrightarrow>
                   only_offset_tables w w' \<and> (r = Inr () \<longrightarrow> I w') \<and> (ok \<longrightarrow> r = Inr ())"
    and "I w" and "for_each body xs w = (r, w')"
  shows "only_offset_tables w w' \<and> (r = Inr () \<longrightarrow> I w') \<and> (ok \<longrightarrow> r = Inr ())"
  using assms
proof (induction xs arbitrary: w)
  case Nil
  then show ?case by (auto simp: only_offset_tables_refl)
next
  case (Cons x xs)
  obtain r1 w1 where b: "body x w = (r1, w1)" by (cases "body x w")
  from Cons.prems(1) [OF _ Cons.prems(2) b]
  have s: "only_offset_tables w w1" "r1 = Inr () \<longrightarrow> I w1" "ok \<longrightarrow> r1 = Inr ()"
    by simp_all
  show ?case
  proof (cases r1)
    case (Inl e)
    with b Cons.prems(3) s show ?thesis by simp
  next
    case (Inr u)
    with b Cons.prems(3) have rest: "for_each body xs w1 = (r, w')" by simp
    from Inr s have "I w1" by simp
    have "only_offset_tables w1 w' \<and> (r = Inr () \<longrightarrow> I w') \<and> (ok \<longrightarrow> r = Inr ())"
    proof (rule Cons.IH [OF _ \<open>I w1\<close> rest])
      fix y v r2 v'
      assume "y \<in> set xs" "I v" "body y v = (r2, v')"
      then show "only_offset_tables v v' \<and> (r2 = Inr () \<longrightarrow> I v') \<and> (ok \<longrightarrow> r2 = Inr ())"
        using Cons.prems(1) [of y v r2 v'] by simp
    qed
    with s(1) show ?thesis by (blast intro: only_offset_tables_trans)
  qed
qed

text \<open>Facts about the concrete stager and track.\<close>

lemma demo_all_types: "all_types demo_track = {demo_type}"
  by (simp add: all_types_def demo_track_def)

lemma demo_stager_splitext: "io_splitext (demo_stager off) (JStr ''data/docs.json.bz2'') = Inr (''data/docs.json'', ''.bz2'')"
  by (simp add: demo_stager_def demo_splitext_def)

lemma demo_type_staged: "staged (demo_stager False)
     [''data/docs.json.bz2'' \<mapsto> 100, ''data/docs.json'' \<mapsto> 1000] demo_type"
  by (simp add: staged_def demo_stager_splitext already_downloaded_def demo_type_def)

lemma offset_file_is_no_archive: "p @ ''.offset'' \<noteq> ''data/docs.json.bz2''"
proof
  assume "p @ ''.offset'' = ''data/docs.json.bz2''"
  then have "last (p @ ''.offset'') = last ''data/docs.json.bz2''" by (rule arg_cong)
  then show False by simp
qed

lemma offset_file_is_no_data_file: "p @ ''.offset'' \<noteq> ''data/docs.json''"
proof
  assume "p @ ''.offset'' = ''data/docs.json''"
  then have "last (p @ ''.offset'') = last ''data/docs.json''" by (rule arg_cong)
  then show False by simp
qed

lemma demo_offset_table:
  "io_prepare_file_offset_table (demo_stager off) = (\<lambda>p fs. (Inr (), fs(p @ ''.offset'' \<mapsto> 0)))"
  by (simp add: demo_stager_def)

lemma demo_keeps_staged: "keeps_staged (demo_stager False) (all_types demo_track)"
  unfolding keeps_staged_def demo_all_types
proof (intro allI impI ballI)
  fix p fs fs' t
  assume o: "io_prepare_file_offset_table (demo_stager False) p fs = (Inr (), fs')"
    and t: "t \<in> {demo_type}" and s: "staged (demo_stager False) fs t"
  from o have fs': "fs' = fs(p @ ''.offset'' \<mapsto> 0)"
    by (simp add: demo_offset_table)
  from t s have "already_downloaded fs ''data/docs.json.bz2'' (JInt 100)"
    "already_downloaded fs ''data/docs.json'' (JInt 1000)"
    by (simp_all add: staged_def demo_stager_splitext demo_type_def)
  then have "already_downloaded fs' ''data/docs.json.bz2'' (JInt 100)"
    "already_downloaded fs' ''data/docs.json'' (JInt 1000)"
    using offset_file_is_no_archive [of p] offset_file_is_no_data_file [of p] by (simp_all add: already_downloaded_def fs')
  with t show "staged (demo_stager False) fs' t"
    by (simp add: staged_def demo_stager_splitext demo_type_def)
qed

lemma demo_second_run: "prepare_track (demo_stager False) demo_track
          \<lparr>files = [''data/docs.json.bz2'' \<mapsto> 100, ''data/docs.json'' \<mapsto> 1000], io_log = []\<rparr>
     = (Inr (), \<lparr>files = [''data/docs.json.bz2'' \<mapsto> 100, ''data/docs.json'' \<mapsto> 1000,
                          ''data/docs.json.offset'' \<mapsto> 0],
                 io_log = [Offset_Table ''data/docs.json'']\<rparr>)"
proof -
  have "prepare_type (demo_stager False) (JStr ''http://host/corpora'') demo_type
          \<lparr>files = [''data/docs.json.bz2'' \<mapsto> 100, ''data/docs.json'' \<mapsto> 1000], io_log = []\<rparr>
     = call (Offset_Table ''data/docs.json'')
         (io_prepare_file_offset_table (demo_stager False) ''data/docs.json'')
         \<lparr>files = [''data/docs.json.bz2'' \<mapsto> 100, ''data/docs.json'' \<mapsto> 1000], io_log = []\<rparr>"
    by (rule prepare_type_skipped [where archive = "''data/docs.json.bz2''" and extension = "''.bz2''"])
       (simp_all add: demo_type_def demo_stager_splitext already_downloaded_def)
  then show ?thesis
    by (simp add: prepare_track_def demo_track_def call_def demo_offset_table)
qed

text \<open>
  Claim C2. For a type whose archive is there with the expected compressed size and whose
  decompressed file is there with the expected uncompressed size, the loop body of
  \<^verbatim>\<open>prepare_track\<close> is one call, that of \<^verbatim>\<open>io.prepare_file_offset_table\<close>: nothing is
  downloaded and nothing is decompressed. And when every type of the track is staged (no
  archive, or both files there with the expected sizes) and building an offset table leaves
  staged types staged, what \<^verbatim>\<open>prepare_track\<close> adds to the log are offset table events
  only, and it returns if building the offset tables does.
\<close>

theorem prepare_track_idempotent:
  "(document_archive t = Some archive \<and> archive \<noteq> [] \<and>
    already_downloaded (files v) archive (compressed_size_in_bytes t) \<and>
    io_splitext env (JStr archive) = Inr (basename, extension) \<and>
    already_downloaded (files v) basename (uncompressed_size_in_bytes t) \<longrightarrow>
      prepare_type env root_url t v =
        call (Offset_Table basename) (io_prepare_file_offset_table env basename) v)
   \<and> ((\<forall>t\<in>all_types track. staged env (files w) t) \<and> keeps_staged env (all_types track) \<longrightarrow>
        only_offset_tables w (snd (prepare_track env track w)) \<and>
        ((\<forall>p fs. fst (io_prepare_file_offset_table env p fs) = Inr ()) \<longrightarrow>
           fst (prepare_track env track w) = Inr ()))"
proof (intro conjI impI; (elim conjE)?)
  assume "document_archive t = Some archive" "archive \<noteq> []"
    "already_downloaded (files v) archive (compressed_size_in_bytes t)"
    "io_splitext env (JStr archive) = Inr (basename, extension)"
    "already_downloaded (files v) basename (uncompressed_size_in_bytes t)"
  then show "prepare_type env root_url t v =
        call (Offset_Table basename) (io_prepare_file_offset_table env basename) v"
    by (rule prepare_type_skipped)
next
  let ?I = "\<lambda>w. \<forall>t\<in>all_types track. staged env (files w) t"
  let ?ok = "\<forall>p fs. fst (io_prepare_file_offset_table env p fs) = Inr ()"
  assume all: "?I w" and keeps: "keeps_staged env (all_types track)"
  obtain r w' where run: "prepare_track env track w = (r, w')"
    by (cases "prepare_track env track w")
  have inner: "only_offset_tables u u' \<and> (s = Inr () \<longrightarrow> ?I u') \<and> (?ok \<longrightarrow> s = Inr ())"
    if "index \<in> set (indices track)" "?I u"
      "for_each (prepare_type env (source_root_url track)) (index_types index) u = (s, u')"
    for index u s u'
  proof (rule for_each_keeps [where I = ?I and body = "prepare_type env (source_root_url track)"
          and xs = "index_types index"])
    show "?I u" by (rule that(2))
    show "for_each (prepare_type env (source_root_url track)) (index_types index) u = (s, u')"
      by (rule that(3))
  next
    fix x a s a'
    assume x: "x \<in> set (index_types index)" and i: "?I a"
      and p: "prepare_type env (source_root_url track) x a = (s, a')"
    from x that(1) have "x \<in> all_types track"
      by (auto simp: all_types_def)
    from prepare_type_keeps [OF keeps i this _ p, of ?ok]
    show "only_offset_tables a a' \<and> (s = Inr () \<longrightarrow> ?I a') \<and> (?ok \<longrightarrow> s = Inr ())"
      by blast
  qed
  have outer: "only_offset_tables w w' \<and> (r = Inr () \<longrightarrow> ?I w') \<and> (?ok \<longrightarrow> r = Inr ())"
    by (rule for_each_keeps [where I = ?I and xs = "indices track", OF inner all])
       (use run in \<open>simp_all add: prepare_track_def\<close>)
  from outer run show "only_offset_tables w (snd (prepare_track env track w))"
    by simp
  from outer run show "fst (prepare_track env track w) = Inr ()" if ?ok
    using that by simp
qed

text \<open>
  The track of one type whose archive of 100 bytes and data file of 1000 bytes are there:
  online, \<^verbatim>\<open>prepare_track\<close> writes the offset table and nothing else.
\<close>

theorem prepare_track_idempotent_witness:
  "staged (demo_stager False)
     [''data/docs.json.bz2'' \<mapsto> 100, ''data/docs.json'' \<mapsto> 1000] demo_type
   \<and> keeps_staged (demo_stager False) (all_types demo_track)
   \<and> prepare_type (demo_stager False) (JStr ''http://host/corpora'') demo_type
       \<lparr>files = [''data/docs.json.bz2'' \<mapsto> 100, ''data/docs.json'' \<mapsto> 1000], io_log = []\<rparr>
     = call (Offset_Table ''data/docs.json'')
         (io_prepare_file_offset_table (demo_stager False) ''data/docs.json'')
         \<lparr>files = [''data/docs.json.bz2'' \<mapsto> 100, ''data/docs.json'' \<mapsto> 1000], io_log = []\<rparr>
   \<and> only_offset_tables
       \<lparr>files = [''data/docs.json.bz2'' \<mapsto> 100, ''data/docs.json'' \<mapsto> 1000], io_log = []\<rparr>
       (snd (prepare_track (demo_stager False) demo_track
          \<lparr>files = [''data/docs.json.bz2'' \<mapsto> 100, ''data/docs.json'' \<mapsto> 1000], io_log = []\<rparr>))
   \<and> fst (prepare_track (demo_stager False) demo_track
          \<lparr>files = [''data/docs.json.bz2'' \<mapsto> 100, ''data/docs.json'' \<mapsto> 1000], io_log = []\<rparr>)
     = Inr ()
   \<and> io_log (snd (prepare_track (demo_stager False) demo_track
          \<lparr>files = [''data/docs.json.bz2'' \<mapsto> 100, ''data/docs.json'' \<mapsto> 1000], io_log = []\<rparr>))
     = [Offset_Table ''data/docs.json'']"
proof -
  let ?w = "\<lparr>files = [''data/docs.json.bz2'' \<mapsto> 100, ''data/docs.json'' \<mapsto> 1000], io_log = []\<rparr>"
  have all: "\<forall>t\<in>all_types demo_track. staged (demo_stager False) (files ?w) t"
    by (simp add: demo_all_types demo_type_staged)
  have returns: "\<forall>p fs. fst (io_prepare_file_offset_table (demo_stager False) p fs) = Inr ()"
    by (simp add: demo_offset_table)
  have there: "document_archive demo_type = Some ''data/docs.json.bz2'' \<and> ''data/docs.json.bz2'' \<noteq> [] \<and>
    already_downloaded (files ?w) ''data/docs.json.bz2'' (compressed_size_in_bytes demo_type) \<and>
    io_splitext (demo_stager False) (JStr ''data/docs.json.bz2'') = Inr (''data/docs.json'', ''.bz2'') \<and>
    already_downloaded (files ?w) ''data/docs.json'' (uncompressed_size_in_bytes demo_type)"
    by (simp add: demo_type_def demo_stager_splitext already_downloaded_def)
  note main = prepare_track_idempotent [where env = "demo_stager False" and track = demo_track
      and w = ?w and v = ?w and t = demo_type and archive = "''data/docs.json.bz2''"
      and basename = "''data/docs.json''" and extension = "''.bz2''"
      and root_url = "JStr ''http://host/corpora''"]
  from main there have body: "prepare_type (demo_stager False) (JStr ''http://host/corpora'') demo_type ?w
     = call (Offset_Table ''data/docs.json'')
         (io_prepare_file_offset_table (demo_stager False) ''data/docs.json'') ?w"
    by blast
  from main all demo_keeps_staged
  have only: "only_offset_tables ?w (snd (prepare_track (demo_stager False) demo_track ?w))"
    by blast
  from main all demo_keeps_staged returns
  have ok: "fst (prepare_track (demo_stager False) demo_track ?w) = Inr ()"
    by blast
  have "io_log (snd (prepare_track (demo_stager False) demo_track ?w)) = [Offset_Table ''data/docs.json'']"
    by (simp add: demo_second_run)
  with demo_type_staged demo_keeps_staged body only ok show ?thesis
    by (intro conjI)
qed

section \<open>Staging: what fails\<close>

text \<open>An exception of the loop body leaves the loop, with the world as the body left it.\<close>

lemma for_each_raises:
  assumes "for_each body pre w = (Inr (), start)" and "body x start = (Inl e, w')"
  shows "for_each body (pre @ x # post) w = (Inl e, w')"
  using assms
proof (induction pre arbitrary: w)
  case Nil
  then show ?case by simp
next
  case (Cons y pre)
  obtain r v where b: "body y w = (r, v)" by (cases "body y w")
  with Cons.prems(1) obtain u where "r = Inr u" "for_each body pre v = (Inr (), start)"
    by (cases r) auto
  with b Cons.IH [OF _ Cons.prems(2)] show ?case by simp
qed

lemma prepare_track_raises:
  assumes "indices track = ipre @ index # ipost" and "index_types index = tpre @ t # tpost"
    and "for_each (\<lambda>index. for_each (prepare_type env (source_root_url track)) (index_types index))
           ipre start = (Inr (), mid)"
    and "for_each (prepare_type env (source_root_url track)) tpre mid = (Inr (), w)"
    and "prepare_type env (source_root_url track) t w = (Inl e, w')"
  shows "prepare_track env track start = (Inl e, w')"
proof -
  have "for_each (prepare_type env (source_root_url track)) (index_types index) mid = (Inl e, w')"
    unfolding assms(2) using assms(4,5) by (rule for_each_raises)
  with assms(3) show ?thesis
    unfolding prepare_track_def assms(1) by (rule for_each_raises)
qed


text \<open>
  Claim C9. The loops of \<^verbatim>\<open>prepare_track\<close>, started in the world \<open>start\<close>, have reached
  the type \<open>t\<close>, which has an archive, in the world \<open>w\<close>; the download step ran (the archive was not there with its
  expected size) and came back, leaving the world \<open>w'\<close>, in which the archive does not
  exist. Then the loop body and \<^verbatim>\<open>prepare_track\<close> raise a \<^verbatim>\<open>SystemSetupError\<close>: offline
  it says to disable offline mode, online it says to verify that the data are available at
  the URL and to check the connection.
\<close>

theorem missing_archive_is_setup_error:
  assumes "document_archive t = Some archive" and "archive \<noteq> []"
    and "url = py_str (py_repr env) (source_root_url track) @ ''/'' @ os_path_basename env archive"
    and "\<not> already_downloaded (files w) archive (compressed_size_in_bytes t)"
    and "try_download env url archive (compressed_size_in_bytes t) w = (Inr (), w')"
    and "files w' archive = None"
    and "indices track = ipre @ index # ipost" and "index_types index = tpre @ t # tpost"
    and "for_each (\<lambda>index. for_each (prepare_type env (source_root_url track)) (index_types index))
           ipre start = (Inr (), mid)"
    and "for_each (prepare_type env (source_root_url track)) tpre mid = (Inr (), w)"
  shows "let msg = (if offline env then
                      ''Cannot find '' @ archive @ ''. Please disable offline mode and retry again.''
                    else
                      ''Cannot download from '' @ url @ '' to '' @ archive @
                      ''. Please verify that data are available at '' @ url @
                      '' and check your internet connection.'')
         in prepare_type env (source_root_url track) t w = (Inl (SystemSetupError msg), w')
          \<and> prepare_track env track start = (Inl (SystemSetupError msg), w')"
proof -
  have body: "prepare_type env (source_root_url track) t w =
     (Inl (SystemSetupError
        (if offline env then
           ''Cannot find '' @ archive @ ''. Please disable offline mode and retry again.''
         else
           ''Cannot download from '' @ url @ '' to '' @ archive @
           ''. Please verify that data are available at '' @ url @
           '' and check your internet connection.'')), w')"
    using assms(1-6) by (simp add: prepare_type_def download_def verify_download_def)
  from body prepare_track_raises [OF assms(7-10) body] show ?thesis
    by (simp add: Let_def)
qed

text \<open>
  Nothing is on disk. Offline, nothing is fetched; online, with a download that raises
  \<^verbatim>\<open>URLError\<close>, the error is swallowed and the archive is still missing.
\<close>

theorem missing_archive_is_setup_error_witness:
  "prepare_track (demo_stager True) demo_track \<lparr>files = Map.empty, io_log = []\<rparr>
     = (Inl (SystemSetupError ''Cannot find data/docs.json.bz2. Please disable offline mode and retry again.''),
        \<lparr>files = Map.empty, io_log = []\<rparr>)
   \<and> prepare_track ((demo_stager False)\<lparr>net_download := (\<lambda>url p size_in_bytes fs. (Inl URLError, fs))\<rparr>)
       demo_track \<lparr>files = Map.empty, io_log = []\<rparr>
     = (Inl (SystemSetupError ''Cannot download from http://host/corpora/docs.json.bz2 to data/docs.json.bz2. Please verify that data are available at http://host/corpora/docs.json.bz2 and check your internet connection.''),
        \<lparr>files = Map.empty,
         io_log = [Ensure_Dir ''data'',
                   Download ''http://host/corpora/docs.json.bz2'' ''data/docs.json.bz2'']\<rparr>)"
proof (intro conjI)
  have off: "try_download (demo_stager True) ''http://host/corpora/docs.json.bz2''
       ''data/docs.json.bz2'' (JInt 100) \<lparr>files = Map.empty, io_log = []\<rparr>
     = (Inr (), \<lparr>files = Map.empty, io_log = []\<rparr>)"
    by (simp add: try_download_def demo_stager_def)
  from missing_archive_is_setup_error [where env = "demo_stager True" and track = demo_track
      and t = demo_type and archive = "''data/docs.json.bz2''"
      and url = "''http://host/corpora/docs.json.bz2''"
      and w = "\<lparr>files = Map.empty, io_log = []\<rparr>" and w' = "\<lparr>files = Map.empty, io_log = []\<rparr>"
      and ipre = "[]" and ipost = "[]" and tpre = "[]" and tpost = "[]"
      and index = "\<lparr>index_name = JStr ''idx'', index_types = [demo_type]\<rparr>"
      and start = "\<lparr>files = Map.empty, io_log = []\<rparr>" and mid = "\<lparr>files = Map.empty, io_log = []\<rparr>"]
    off
  show "prepare_track (demo_stager True) demo_track \<lparr>files = Map.empty, io_log = []\<rparr>
     = (Inl (SystemSetupError ''Cannot find data/docs.json.bz2. Please disable offline mode and retry again.''),
        \<lparr>files = Map.empty, io_log = []\<rparr>)"
    by (simp add: Let_def demo_type_def demo_track_def already_downloaded_def demo_stager_def)
next
  let ?env = "(demo_stager False)\<lparr>net_download := (\<lambda>url p size_in_bytes fs. (Inl URLError, fs))\<rparr>"
  have on: "try_download ?env ''http://host/corpora/docs.json.bz2''
       ''data/docs.json.bz2'' (JInt 100) \<lparr>files = Map.empty, io_log = []\<rparr>
     = (Inr (), \<lparr>files = Map.empty,
         io_log = [Ensure_Dir ''data'',
                   Download ''http://host/corpora/docs.json.bz2'' ''data/docs.json.bz2'']\<rparr>)"
    by (simp add: try_download_def demo_stager_def call_def)
  from missing_archive_is_setup_error [where env = ?env and track = demo_track
      and t = demo_type and archive = "''data/docs.json.bz2''"
      and url = "''http://host/corpora/docs.json.bz2''"
      and w = "\<lparr>files = Map.empty, io_log = []\<rparr>"
      and w' = "\<lparr>files = Map.empty,
         io_log = [Ensure_Dir ''data'',
                   Download ''http://host/corpora/docs.json.bz2'' ''data/docs.json.bz2'']\<rparr>"
      and ipre = "[]" and ipost = "[]" and tpre = "[]" and tpost = "[]"
      and index = "\<lparr>index_name = JStr ''idx'', index_types = [demo_type]\<rparr>"
      and start = "\<lparr>files = Map.empty, io_log = []\<rparr>" and mid = "\<lparr>files = Map.empty, io_log = []\<rparr>"]
    on
  show "prepare_track ?env demo_track \<lparr>files = Map.empty, io_log = []\<rparr>
     = (Inl (SystemSetupError ''Cannot download from http://host/corpora/docs.json.bz2 to data/docs.json.bz2. Please verify that data are available at http://host/corpora/docs.json.bz2 and check your internet connection.''),
        \<lparr>files = Map.empty,
         io_log = [Ensure_Dir ''data'',
                   Download ''http://host/corpora/docs.json.bz2'' ''data/docs.json.bz2'']\<rparr>)"
    by (simp add: Let_def demo_type_def demo_track_def already_downloaded_def demo_stager_def)
qed




section \<open>Updating the track repository\<close>

text \<open>
  Claim C8. The repository has a remote and is online, \<^verbatim>\<open>git.branches\<close> answers for the
  remote and for the local branches, and no remote branch matches the version. Then
  \<^verbatim>\<open>_update\<close> logs the warning that it falls back to local track data and asks for the best
  match among the local branches: when there is one and its checkout returns, \<^verbatim>\<open>_update\<close>
  returns, having logged the warning and the checkout and checked that branch out; when
  there is none, it raises a \<^verbatim>\<open>SystemSetupError\<close>, having logged the warning only.
\<close>

theorem update_falls_back_to_local_branches:
  assumes "remote repo" and "\<not> repo_offline repo"
    and "git_branches git (tracks_dir repo) True (working_copy w) = Inr remote_branches"
    and "versions_best_match git remote_branches version = Inr miss" and "found_branch miss = None"
    and "git_branches git (tracks_dir repo) False (working_copy w) = Inr local_branches"
    and "versions_best_match git local_branches version = Inr hit"
  shows "let notice = Log_Warn (''Could not find track data remotely for distribution version ['' @
                        version_str version @ '']. Trying to find track data locally.'')
         in (\<forall>b g. found_branch hit = Some b \<and>
                   git_checkout git (tracks_dir repo) b (working_copy w) = (Inr (), g) \<longrightarrow>
               update git repo version w =
                 (Inr (), \<lparr>working_copy = g,
                           repo_log = repo_log w @ [notice,
                             Log_Info (checking_out b (tracks_dir repo) version),
                             Git_Checkout (tracks_dir repo) b]\<rparr>))
          \<and> (found_branch hit = None \<longrightarrow>
               update git repo version w =
                 (Inl (SystemSetupError (''Cannot find track data for distribution version '' @
                    version_str version)), w\<lparr>repo_log := repo_log w @ [notice]\<rparr>))"
  using assms
  by (auto simp: Let_def update_def update_body_def update_local_def logged_def checkout_def)

text \<open>
  The remote has the branches \<^verbatim>\<open>master\<close> and \<^verbatim>\<open>2\<close>, the working copy has \<^verbatim>\<open>master\<close> and
  \<^verbatim>\<open>5\<close>: for the version 5 the local branch is checked out, for the version 6 nothing is
  found.
\<close>

theorem update_falls_back_to_local_branches_witness:
  "update demo_git demo_repo (Some ''5'')
     \<lparr>working_copy = ([''master'', ''2''], [''master'', ''5'']), repo_log = []\<rparr>
   = (Inr (),
      \<lparr>working_copy = ([''master'', ''2''], [''master'', ''5'']),
       repo_log =
         [Log_Warn ''Could not find track data remotely for distribution version [5]. Trying to find track data locally.'',
          Log_Info ''Checking out [5] in [/rally/tracks/default] for distribution version [5].'',
          Git_Checkout ''/rally/tracks/default'' ''5'']\<rparr>)
   \<and> update demo_git demo_repo (Some ''6'')
     \<lparr>working_copy = ([''master'', ''2''], [''master'', ''5'']), repo_log = []\<rparr>
   = (Inl (SystemSetupError ''Cannot find track data for distribution version 6''),
      \<lparr>working_copy = ([''master'', ''2''], [''master'', ''5'']),
       repo_log =
         [Log_Warn ''Could not find track data remotely for distribution version [6]. Trying to find track data locally.'']\<rparr>)"
  using update_falls_back_to_local_branches [where git = demo_git and repo = demo_repo
      and version = "Some ''5''"
      and w = "\<lparr>working_copy = ([''master'', ''2''], [''master'', ''5'']), repo_log = []\<rparr>"
      and remote_branches = "[''master'', ''2'']" and miss = None
      and local_branches = "[''master'', ''5'']" and hit = "Some ''5''"]
    update_falls_back_to_local_branches [where git = demo_git and repo = demo_repo
      and version = "Some ''6''"
      and w = "\<lparr>working_copy = ([''master'', ''2''], [''master'', ''5'']), repo_log = []\<rparr>"
      and remote_branches = "[''master'', ''2'']" and miss = None
      and local_branches = "[''master'', ''5'']" and hit = None]
  by (simp add: Let_def demo_git_def demo_repo_def checking_out_def)

end
